theory Spec2Isabelle
  imports Complex_Main
begin

section \<open>Python values used by \<open>finetune/adapter_v2.py\<close>\<close>

text \<open>
  The script raises three kinds of exception on its own account: a division or modulo by
  zero, the failed top-level \<open>assert\<close>, and an index into an empty list.
\<close>

datatype py_error = ZeroDivisionError | AssertionError | IndexError

text \<open>
  Python \<open>int\<close> is \<open>int\<close>. A Python \<open>float\<close> is an IEEE 754 binary64 number and is
  modelled by the rational number it denotes. \<open>round_double\<close> rounds a rational to the
  nearest such number, ties to the even significand: 53 significant bits, the exponent
  bounded below as for subnormal numbers. Values beyond the largest finite double are
  not modelled; the script's learning rates are far from them.
\<close>

fun bit_length :: "nat \<Rightarrow> nat" where
  "bit_length n = (if n = 0 then 0 else Suc (bit_length (n div 2)))"

declare bit_length.simps [simp del]

text \<open>For a positive \<open>x\<close>, the integer \<open>e\<close> with \<open>2 ^ e \<le> x < 2 ^ (e + 1)\<close>.\<close>

definition floor_log2 :: "rat \<Rightarrow> int" where
  "floor_log2 x =
     (if 1 \<le> x then int (bit_length (nat \<lfloor>x\<rfloor>)) - 1
      else - int (bit_length (nat (\<lceil>1 / x\<rceil> - 1))))"

definition round_half_even :: "rat \<Rightarrow> int" where
  "round_half_even q =
     (let f = \<lfloor>q\<rfloor>; d = q - of_int f
      in if d < 1 / 2 then f else if 1 / 2 < d then f + 1 else if even f then f else f + 1)"

definition round_double :: "rat \<Rightarrow> rat" where
  "round_double x =
     (if x = 0 then 0
      else let e = max (floor_log2 \<bar>x\<bar>) (- 1022); ulp = 2 powi (e - 52)
           in of_int (round_half_even (x / ulp)) * ulp)"

text \<open>
  Float multiplication and true division as the training loop uses them on line 157: the
  exact result, rounded. Division raises \<open>ZeroDivisionError\<close> on a zero divisor.
\<close>

definition py_float_mul :: "rat \<Rightarrow> rat \<Rightarrow> rat" where
  "py_float_mul a b = round_double (a * b)"

definition py_float_truediv :: "rat \<Rightarrow> rat \<Rightarrow> py_error + rat" where
  "py_float_truediv a b =
     (if b = 0 then Inl ZeroDivisionError else Inr (round_double (a / b)))"

text \<open>
  At module level \<open>128 / devices\<close> is a float in Python 3, and so is every value computed
  from it with \<open>//\<close> or \<open>%\<close>. The script reads that quotient only through floor division,
  and the model keeps it exact. Floor division and modulo of floats follow the sign of the
  divisor, as they do for integers, and both raise \<open>ZeroDivisionError\<close> on a zero divisor.
\<close>

definition py_truediv :: "rat \<Rightarrow> rat \<Rightarrow> py_error + rat" where
  "py_truediv a b = (if b = 0 then Inl ZeroDivisionError else Inr (a / b))"

definition py_floordiv :: "int \<Rightarrow> int \<Rightarrow> py_error + int" where
  "py_floordiv a b = (if b = 0 then Inl ZeroDivisionError else Inr (a div b))"

definition py_float_floordiv :: "rat \<Rightarrow> rat \<Rightarrow> py_error + rat" where
  "py_float_floordiv a b =
     (if b = 0 then Inl ZeroDivisionError else Inr (of_int \<lfloor>a / b\<rfloor>))"

definition py_mod :: "int \<Rightarrow> int \<Rightarrow> py_error + int" where
  "py_mod a b = (if b = 0 then Inl ZeroDivisionError else Inr (a mod b))"

definition py_float_mod :: "rat \<Rightarrow> rat \<Rightarrow> py_error + rat" where
  "py_float_mod a b =
     (if b = 0 then Inl ZeroDivisionError else Inr (a - b * of_int \<lfloor>a / b\<rfloor>))"

section \<open>Module level: constants and derived hyperparameters\<close>

text \<open>
  The literal constants of lines 26 to 43. \<open>override_max_seq_length\<close> is \<open>None\<close> and is
  never read in this file. The float literals \<open>3e-3\<close> and \<open>0.02\<close> denote the doubles nearest
  to the decimals written.
\<close>

record literals =
  eval_interval :: int
  save_interval :: int
  eval_iters :: int
  log_interval :: int
  devices :: int
  learning_rate :: rat
  micro_batch_size :: int
  epoch_size :: int
  num_epochs :: int
  weight_decay :: rat

text \<open>
  The module namespace after the top-level statements have run: the literals and the four
  derived values. \<open>batch_size\<close>, \<open>gradient_accumulation_iters\<close> and \<open>warmup_steps\<close> are
  floats, \<open>max_iters\<close> is an integer.
\<close>

record hparams = literals +
  batch_size :: rat
  gradient_accumulation_iters :: rat
  max_iters :: int
  warmup_steps :: rat

definition source_literals :: literals where
  "source_literals =
     \<lparr> eval_interval = 600, save_interval = 1000, eval_iters = 100, log_interval = 1,
       devices = 1, learning_rate = round_double (3 / 1000), micro_batch_size = 2,
       epoch_size = 50000, num_epochs = 5, weight_decay = round_double (2 / 100) \<rparr>"

text \<open>
  Lines 36 to 44, statement by statement. Every \<open>/\<close>, \<open>//\<close> of the source is a branch that can
  raise, and the \<open>assert\<close> of line 39 is the third one.
\<close>

definition module_body :: "literals \<Rightarrow> py_error + hparams" where
  "module_body c =
     (case py_truediv 128 (of_int (devices c)) of
        Inl e \<Rightarrow> Inl e
      | Inr bs \<Rightarrow>
     (case py_float_floordiv bs (of_int (micro_batch_size c)) of
        Inl e \<Rightarrow> Inl e
      | Inr gai \<Rightarrow>
     if \<not> gai > 0 then Inl AssertionError else
     (case py_floordiv (epoch_size c) (micro_batch_size c) of
        Inl e \<Rightarrow> Inl e
      | Inr per_epoch \<Rightarrow>
     (case py_floordiv (num_epochs c * per_epoch) (devices c) of
        Inl e \<Rightarrow> Inl e
      | Inr mi \<Rightarrow>
     (case py_floordiv (2 * per_epoch) (devices c) of
        Inl e \<Rightarrow> Inl e
      | Inr w \<Rightarrow>
     (case py_float_floordiv (of_int w) gai of
        Inl e \<Rightarrow> Inl e
      | Inr ws \<Rightarrow>
        Inr (literals.extend c
              \<lparr> batch_size = bs, gradient_accumulation_iters = gai,
                max_iters = mi, warmup_steps = ws \<rparr>)))))))"

text \<open>
  Line 167: \<open>is_accumulating = (iter_num + 1) % gradient_accumulation_iters != 0\<close>, a float
  modulo.
\<close>

definition is_accumulating :: "hparams \<Rightarrow> nat \<Rightarrow> py_error + bool" where
  "is_accumulating hp iter_num =
     (case py_float_mod (of_int (int iter_num + 1)) (gradient_accumulation_iters hp) of
        Inl e \<Rightarrow> Inl e
      | Inr r \<Rightarrow> Inr (r \<noteq> 0))"

section \<open>Model parameters, optimizer and the collaborators of the script\<close>

text \<open>
  A module's named parameters in registration order: each has a name, the tensor it holds
  and its \<open>requires_grad\<close> flag. The tensor type \<open>'v\<close> is left open.
\<close>

record 'v param =
  data :: 'v
  requires_grad :: bool

type_synonym 'v module = "(string \<times> 'v param) list"

type_synonym 'v state_dict = "(string \<times> 'v) list"

definition state_dict :: "'v module \<Rightarrow> 'v state_dict" where
  "state_dict m = map (\<lambda>(k, p). (k, data p)) m"

text \<open>
  \<open>torch.optim.AdamW(params, lr=..., weight_decay=...)\<close> called with a plain list of
  parameters builds one parameter group. Parameters are referred to by name.
\<close>

record param_group =
  params :: "string list"
  lr :: rat
  group_weight_decay :: rat

record optimizer =
  param_groups :: "param_group list"

definition AdamW :: "string list \<Rightarrow> rat \<Rightarrow> rat \<Rightarrow> optimizer" where
  "AdamW ps l wd =
     \<lparr> param_groups = [\<lparr> params = ps, lr = l, group_weight_decay = wd \<rparr>] \<rparr>"

text \<open>A \<open>pathlib.Path\<close> as its list of components; \<open>p / name\<close> appends one.\<close>

type_synonym path = "string list"

definition path_div :: "path \<Rightarrow> string \<Rightarrow> path" where
  "path_div p name = p @ [name]"

text \<open>
  What the script calls but does not define: the framework (Lightning Fabric, PyTorch) and
  the other modules of the repository. Tensors are lists: a batch of token ids is
  \<open>batch \<times> time\<close>, the model returns its logits as a list of chunks, each
  \<open>batch \<times> time \<times> vocabulary\<close> with the vocabulary axis kept abstract as \<open>'lg\<close>. The batch
  drawn, the logits and the optimizer's update are indexed by the iteration, which stands
  for everything they depend on (random draws, current weights, gradients).
\<close>

record ('lg, 'v) world =
  xla :: bool
  global_rank :: int
  get_batch :: "nat \<Rightarrow> nat list list \<times> nat list list"
  model_forward :: "nat \<Rightarrow> nat list list \<Rightarrow> 'lg list list list"
  chunked_cross_entropy :: "'lg list list list \<Rightarrow> nat list list \<Rightarrow> rat"
  optimizer_update :: "nat \<Rightarrow> string \<Rightarrow> 'v \<Rightarrow> 'v"
  adapter_filter :: "string \<Rightarrow> 'v \<Rightarrow> bool"
  gpt_init :: "'v state_dict"
  adapter_v2_params :: "'v state_dict"
  lazy_load :: "path \<Rightarrow> 'v state_dict"

text \<open>The observable effects, in the order the script performs them.\<close>

datatype 'v event =
    CheckValidCheckpointDir path
  | SeedEverything int
  | MakeDirs path
  | TorchLoad path
  | Print string
  | InitModule
  | LoadStateDict path bool
  | AddAdapterV2
  | MarkOnlyAdapterV2
  | CreateOptimizer optimizer
  | FabricSetup
  | Validate
  | MarkStep
  | GetBatch nat bool
  | Forward bool
  | Backward rat bool
  | OptimizerStep "rat list"
  | ZeroGrad
  | BatchEnd int int
  | EvalEnd
  | Barrier
  | Save path "'v state_dict"

record 'v train_state =
  step_count :: int
  total_lengths :: int
  model :: "'v module"
  optim :: optimizer
  trace :: "'v event list"

text \<open>
  A raise keeps the effects performed so far: \<open>Inl (e, s)\<close> is exception \<open>e\<close> leaving
  state \<open>s\<close> behind.
\<close>

type_synonym 'v outcome = "(py_error \<times> 'v train_state) + 'v train_state"

definition emit :: "'v event list \<Rightarrow> 'v train_state \<Rightarrow> 'v train_state" where
  "emit evs s = s\<lparr> trace := trace s @ evs \<rparr>"

section \<open>Checkpoints\<close>

text \<open>
  \<open>fabric.save(path, {"model": model}, filter={"model": adapter_filter})\<close> writes the
  entries of the model's state dict on which the filter returns true.
\<close>

definition fabric_save ::
  "path \<Rightarrow> 'v module \<Rightarrow> (string \<Rightarrow> 'v \<Rightarrow> bool) \<Rightarrow> 'v event" where
  "fabric_save file_path m flt = Save file_path (filter (\<lambda>(k, v). flt k v) (state_dict m))"

definition save_adapter_v2_checkpoint ::
  "('lg, 'v) world \<Rightarrow> 'v module \<Rightarrow> path \<Rightarrow> 'v event list" where
  "save_adapter_v2_checkpoint w m file_path =
     [Print ''Saving adapter v2 weights'', fabric_save file_path m (adapter_filter w)]"

text \<open>The format \<open>f"iter-{iter_num:06d}-ckpt.pth"\<close>: decimal, zero-padded to width six.\<close>

fun digits10 :: "nat \<Rightarrow> string" where
  "digits10 n =
     (if n < 10 then [''0123456789'' ! n]
      else digits10 (n div 10) @ [''0123456789'' ! (n mod 10)])"

declare digits10.simps [simp del]

definition format_06d :: "nat \<Rightarrow> string" where
  "format_06d n = replicate (6 - length (digits10 n)) (CHR ''0'') @ digits10 n"

definition ckpt_name :: "nat \<Rightarrow> string" where
  "ckpt_name iter_num = ''iter-'' @ format_06d iter_num @ ''-ckpt.pth''"

section \<open>The training loop\<close>

definition and_then :: "'v outcome \<Rightarrow> ('v train_state \<Rightarrow> 'v outcome) \<Rightarrow> 'v outcome" where
  "and_then r f = (case r of Inl e \<Rightarrow> Inl e | Inr s \<Rightarrow> f s)"

text \<open>Lines 158 and 159: every parameter group gets the same learning rate.\<close>

definition set_lr :: "rat \<Rightarrow> optimizer \<Rightarrow> optimizer" where
  "set_lr l opt = opt\<lparr> param_groups := map (\<lambda>g. g\<lparr> lr := l \<rparr>) (param_groups opt) \<rparr>"

definition group_lrs :: "optimizer \<Rightarrow> rat list" where
  "group_lrs opt = map lr (param_groups opt)"

text \<open>
  Lines 155 to 159. \<open>learning_rate * step_count / warmup_steps\<close> is a float multiplication
  followed by a float division, each rounded; the division raises when \<open>warmup_steps\<close> is
  zero.
\<close>

definition linear_warmup :: "hparams \<Rightarrow> 'v train_state \<Rightarrow> 'v outcome" where
  "linear_warmup hp s =
     (if of_int (step_count s) \<le> warmup_steps hp then
        (case py_float_truediv (py_float_mul (learning_rate hp) (of_int (step_count s)))
                (warmup_steps hp) of
           Inl e \<Rightarrow> Inl (e, s)
         | Inr l \<Rightarrow> Inr (s\<lparr> optim := set_lr l (optim s) \<rparr>))
      else Inr s)"

text \<open>
  Line 171: \<open>logits[-1] = logits[-1][..., :-1, :]\<close> replaces the last chunk by itself without
  its last time position, in every row of the batch; on an empty list of chunks the index
  \<open>-1\<close> raises. Line 172: \<open>targets[..., 1:]\<close> drops the first time position of every row.
\<close>

definition shift_logits :: "'lg list list list \<Rightarrow> py_error + 'lg list list list" where
  "shift_logits logits =
     (case logits of
        [] \<Rightarrow> Inl IndexError
      | _ # _ \<Rightarrow> Inr (logits[length logits - 1 := map butlast (last logits)]))"

definition shift_targets :: "nat list list \<Rightarrow> nat list list" where
  "shift_targets targets = map (drop 1) targets"

definition compute_loss ::
  "('lg, 'v) world \<Rightarrow> nat \<Rightarrow> nat list list \<Rightarrow> nat list list \<Rightarrow> py_error + rat" where
  "compute_loss w iter_num input_ids targets =
     (case shift_logits (model_forward w iter_num input_ids) of
        Inl e \<Rightarrow> Inl e
      | Inr logits \<Rightarrow> Inr (chunked_cross_entropy w logits (shift_targets targets)))"

text \<open>Lines 168 to 173, inside \<open>fabric.no_backward_sync(model, enabled=is_accumulating)\<close>.\<close>

definition forward_backward ::
  "hparams \<Rightarrow> ('lg, 'v) world \<Rightarrow> nat \<Rightarrow> bool \<Rightarrow> nat list list \<Rightarrow> nat list list \<Rightarrow>
   'v train_state \<Rightarrow> 'v outcome" where
  "forward_backward hp w iter_num acc input_ids targets s =
     (let s1 = emit [Forward acc] s in
      case compute_loss w iter_num input_ids targets of
        Inl e \<Rightarrow> Inl (e, s1)
      | Inr loss \<Rightarrow> Inr (emit [Backward (loss / gradient_accumulation_iters hp) acc] s1))"

text \<open>
  \<open>optimizer.step()\<close> rewrites the tensors of the parameters held in the optimizer's groups
  and of no other.
\<close>

definition optimizer_step ::
  "('lg, 'v) world \<Rightarrow> nat \<Rightarrow> optimizer \<Rightarrow> 'v module \<Rightarrow> 'v module" where
  "optimizer_step w iter_num opt m =
     map (\<lambda>(k, p).
            if k \<in> set (concat (map params (param_groups opt)))
            then (k, p\<lparr> data := optimizer_update w iter_num k (data p) \<rparr>)
            else (k, p)) m"

text \<open>Lines 175 to 180.\<close>

definition step_or_accumulate ::
  "('lg, 'v) world \<Rightarrow> nat \<Rightarrow> bool \<Rightarrow> 'v train_state \<Rightarrow> 'v train_state" where
  "step_or_accumulate w iter_num acc s =
     (if \<not> acc then
        (emit [OptimizerStep (group_lrs (optim s)), ZeroGrad] s)
          \<lparr> model := optimizer_step w iter_num (optim s) (model s),
            step_count := step_count s + 1 \<rparr>
      else if xla w then emit [MarkStep] s
      else s)"

text \<open>\<open>input_ids.size(1)\<close>: the length of the time axis of a \<open>batch \<times> time\<close> tensor.\<close>

definition size1 :: "'a list list \<Rightarrow> nat" where
  "size1 t = (case t of [] \<Rightarrow> 0 | row # _ \<Rightarrow> length row)"

text \<open>Lines 182 to 198.\<close>

definition monitor_and_log ::
  "hparams \<Rightarrow> nat \<Rightarrow> nat list list \<Rightarrow> 'v train_state \<Rightarrow> 'v outcome" where
  "monitor_and_log hp iter_num input_ids s =
     (let s1 = s\<lparr> total_lengths := total_lengths s + int (size1 input_ids) \<rparr>;
          s2 = emit [BatchEnd ((int iter_num + 1) * micro_batch_size hp) (total_lengths s1)] s1
      in case py_mod (int iter_num) (log_interval hp) of
           Inl e \<Rightarrow> Inl (e, s2)
         | Inr r \<Rightarrow> Inr (if r = 0 then emit [Print ''iter''] s2 else s2))"

text \<open>
  Lines 200 to 206. Python's \<open>and\<close> does not evaluate the modulo on an accumulating
  iteration.
\<close>

definition maybe_validate :: "hparams \<Rightarrow> bool \<Rightarrow> 'v train_state \<Rightarrow> 'v outcome" where
  "maybe_validate hp acc s =
     (if acc then Inr s
      else case py_mod (step_count s) (eval_interval hp) of
             Inl e \<Rightarrow> Inl (e, s)
           | Inr r \<Rightarrow>
               Inr (if r = 0 then emit [Validate, EvalEnd, Print ''val loss'', Barrier] s
                    else s))"

text \<open>Lines 207 to 209.\<close>

definition maybe_save ::
  "hparams \<Rightarrow> ('lg, 'v) world \<Rightarrow> path \<Rightarrow> nat \<Rightarrow> bool \<Rightarrow> 'v train_state \<Rightarrow> 'v outcome" where
  "maybe_save hp w out_dir iter_num acc s =
     (if acc then Inr s
      else case py_mod (step_count s) (save_interval hp) of
             Inl e \<Rightarrow> Inl (e, s)
           | Inr r \<Rightarrow>
               Inr (if r = 0
                    then emit (save_adapter_v2_checkpoint w (model s)
                                 (path_div out_dir (ckpt_name iter_num))) s
                    else s))"

text \<open>The body of the \<open>for\<close> loop, lines 155 to 209.\<close>

definition train_iter ::
  "hparams \<Rightarrow> ('lg, 'v) world \<Rightarrow> path \<Rightarrow> nat \<Rightarrow> 'v train_state \<Rightarrow> 'v outcome" where
  "train_iter hp w out_dir iter_num s =
     and_then (linear_warmup hp s) (\<lambda>s1.
       case get_batch w iter_num of (input_ids, targets) \<Rightarrow>
         let s2 = emit [GetBatch iter_num (iter_num = 0)] s1 in
         case is_accumulating hp iter_num of
           Inl e \<Rightarrow> Inl (e, s2)
         | Inr acc \<Rightarrow>
             and_then (forward_backward hp w iter_num acc input_ids targets s2) (\<lambda>s3.
             and_then (monitor_and_log hp iter_num input_ids
                         (step_or_accumulate w iter_num acc s3)) (\<lambda>s4.
             and_then (maybe_validate hp acc s4) (\<lambda>s5.
             maybe_save hp w out_dir iter_num acc s5))))"

text \<open>\<open>for iter_num in range(max_iters)\<close>: the loop stops at the first raise.\<close>

fun train_loop ::
  "hparams \<Rightarrow> ('lg, 'v) world \<Rightarrow> path \<Rightarrow> nat list \<Rightarrow> 'v train_state \<Rightarrow> 'v outcome" where
  "train_loop hp w out_dir [] s = Inr s"
| "train_loop hp w out_dir (iter_num # rest) s =
     and_then (train_iter hp w out_dir iter_num s) (train_loop hp w out_dir rest)"

text \<open>
  \<open>train\<close>, lines 135 to 209: the sanity-check validation, the counters set to zero, the
  XLA mark and the loop. The meta model built on lines 140 to 144 is only read by
  \<open>measured_flops\<close>.
\<close>

definition train_start :: "('lg, 'v) world \<Rightarrow> 'v module \<Rightarrow> optimizer \<Rightarrow> 'v train_state" where
  "train_start w m opt =
     \<lparr> step_count = 0, total_lengths = 0, model = m, optim = opt,
       trace = Validate # (if xla w then [MarkStep] else []) \<rparr>"

definition train ::
  "hparams \<Rightarrow> ('lg, 'v) world \<Rightarrow> path \<Rightarrow> 'v module \<Rightarrow> optimizer \<Rightarrow> 'v outcome" where
  "train hp w out_dir m opt =
     train_loop hp w out_dir [0..<nat (max_iters hp)] (train_start w m opt)"

text \<open>The state in which iteration \<open>n\<close> begins, if the loop gets that far.\<close>

definition state_before ::
  "hparams \<Rightarrow> ('lg, 'v) world \<Rightarrow> path \<Rightarrow> 'v module \<Rightarrow> optimizer \<Rightarrow> nat \<Rightarrow> 'v outcome" where
  "state_before hp w out_dir m opt n = train_loop hp w out_dir [0..<n] (train_start w m opt)"

section \<open>\<open>main\<close>\<close>

text \<open>
  \<open>GPT(config)\<close> followed by \<open>model.apply(model._init_weights)\<close>: freshly created
  parameters require gradients.
\<close>

definition GPT :: "('lg, 'v) world \<Rightarrow> 'v module" where
  "GPT w = map (\<lambda>(k, v). (k, \<lparr> data = v, requires_grad = True \<rparr>)) (gpt_init w)"

text \<open>
  \<open>model.load_state_dict(checkpoint, strict=False)\<close>: a parameter whose name is in the
  checkpoint takes the checkpoint's tensor; names on one side only are skipped.
\<close>

definition load_state_dict :: "'v state_dict \<Rightarrow> 'v module \<Rightarrow> 'v module" where
  "load_state_dict checkpoint m =
     map (\<lambda>(k, p). case map_of checkpoint k of
                     None \<Rightarrow> (k, p)
                   | Some v \<Rightarrow> (k, p\<lparr> data := v \<rparr>)) m"

text \<open>
  Modelled from the spec: \<open>add_adapter_v2_parameters_to_linear_layers\<close> is defined in
  \<open>lit_gpt/adapter_v2.py\<close>, which is not among the sources. The spec says the script must
  "attach a small number of trainable adapter parameters": the new parameters are
  registered after the existing ones and require gradients.
\<close>

definition add_adapter_v2_parameters_to_linear_layers ::
  "('lg, 'v) world \<Rightarrow> 'v module \<Rightarrow> 'v module" where
  "add_adapter_v2_parameters_to_linear_layers w m =
     m @ map (\<lambda>(k, v). (k, \<lparr> data = v, requires_grad = True \<rparr>)) (adapter_v2_params w)"

text \<open>
  Modelled from the spec: \<open>mark_only_adapter_v2_as_trainable\<close> is defined in
  \<open>lit_gpt/adapter_v2.py\<close>, which is not among the sources. The spec says the script must
  "freeze the base weights" and keep the adapter parameters trainable: a parameter
  requires gradients exactly when \<open>adapter_filter\<close> selects it.
\<close>

definition mark_only_adapter_v2_as_trainable ::
  "('lg, 'v) world \<Rightarrow> 'v module \<Rightarrow> 'v module" where
  "mark_only_adapter_v2_as_trainable w m =
     map (\<lambda>(k, p). (k, p\<lparr> requires_grad := adapter_filter w k (data p) \<rparr>)) m"

text \<open>Lines 94 to 105: the model as it stands when the optimizer is built.\<close>

definition checkpoint_path :: "path \<Rightarrow> path" where
  "checkpoint_path checkpoint_dir = path_div checkpoint_dir ''lit_model.pth''"

definition loaded_model :: "('lg, 'v) world \<Rightarrow> path \<Rightarrow> 'v module" where
  "loaded_model w checkpoint_dir =
     load_state_dict (lazy_load w (checkpoint_path checkpoint_dir)) (GPT w)"

definition prepared_model :: "('lg, 'v) world \<Rightarrow> path \<Rightarrow> 'v module" where
  "prepared_model w checkpoint_dir =
     mark_only_adapter_v2_as_trainable w
       (add_adapter_v2_parameters_to_linear_layers w (loaded_model w checkpoint_dir))"

text \<open>Line 109: \<open>[p for p in model.parameters() if p.requires_grad]\<close>.\<close>

definition trainable_params :: "'v module \<Rightarrow> string list" where
  "trainable_params m = map fst (filter (\<lambda>(k, p). requires_grad p) m)"

definition make_optimizer :: "hparams \<Rightarrow> 'v module \<Rightarrow> optimizer" where
  "make_optimizer hp m = AdamW (trainable_params m) (learning_rate hp) (weight_decay hp)"

text \<open>The effects of lines 82 to 114, before \<open>train\<close> is entered.\<close>

definition main_prologue ::
  "hparams \<Rightarrow> ('lg, 'v) world \<Rightarrow> path \<Rightarrow> path \<Rightarrow> path \<Rightarrow> 'v event list" where
  "main_prologue hp w data_dir checkpoint_dir out_dir =
     [CheckValidCheckpointDir checkpoint_dir, SeedEverything 1337]
     @ (if global_rank w = 0 then [MakeDirs out_dir] else [])
     @ [TorchLoad (path_div data_dir ''train.pt''), TorchLoad (path_div data_dir ''test.pt''),
        Print ''Loading model'', InitModule,
        LoadStateDict (checkpoint_path checkpoint_dir) False,
        AddAdapterV2, MarkOnlyAdapterV2,
        Print ''Number of trainable parameters'',
        Print ''Number of non trainable parameters'',
        CreateOptimizer (make_optimizer hp (prepared_model w checkpoint_dir)),
        FabricSetup, SeedEverything (1337 + global_rank w)]"

definition final_path :: "path \<Rightarrow> path" where
  "final_path out_dir = path_div out_dir ''lit_model_adapter_finetuned.pth''"

definition after_prologue :: "'v event list \<Rightarrow> 'v outcome \<Rightarrow> 'v outcome" where
  "after_prologue evs r =
     (case r of
        Inl (e, s) \<Rightarrow> Inl (e, s\<lparr> trace := evs @ trace s \<rparr>)
      | Inr s \<Rightarrow> Inr (s\<lparr> trace := evs @ trace s \<rparr>))"

definition main ::
  "hparams \<Rightarrow> ('lg, 'v) world \<Rightarrow> path \<Rightarrow> path \<Rightarrow> path \<Rightarrow> 'v outcome" where
  "main hp w data_dir checkpoint_dir out_dir =
     (let m = prepared_model w checkpoint_dir;
          optimizer = make_optimizer hp m
      in and_then
           (after_prologue (main_prologue hp w data_dir checkpoint_dir out_dir)
              (train hp w out_dir m optimizer))
           (\<lambda>s. Inr (emit (Print ''Training time''
                            # save_adapter_v2_checkpoint w (model s) (final_path out_dir)) s)))"

section \<open>Reading outcomes and traces\<close>

definition result_state :: "'v outcome \<Rightarrow> 'v train_state" where
  "result_state r = (case r of Inl (e, s) \<Rightarrow> s | Inr s \<Rightarrow> s)"

fun is_step :: "'v event \<Rightarrow> bool" where
  "is_step (OptimizerStep _) = True"
| "is_step _ = False"

fun is_optimizer_event :: "'v event \<Rightarrow> bool" where
  "is_optimizer_event (OptimizerStep _) = True"
| "is_optimizer_event ZeroGrad = True"
| "is_optimizer_event _ = False"

fun is_backward :: "'v event \<Rightarrow> bool" where
  "is_backward (Backward _ _) = True"
| "is_backward _ = False"

fun is_validate :: "'v event \<Rightarrow> bool" where
  "is_validate Validate = True"
| "is_validate _ = False"

fun is_save :: "'v event \<Rightarrow> bool" where
  "is_save (Save _ _) = True"
| "is_save _ = False"

fun saved_to :: "path \<Rightarrow> 'v event \<Rightarrow> bool" where
  "saved_to p (Save q _) = (q = p)"
| "saved_to p _ = False"

text \<open>An event that, if it writes a checkpoint, writes only entries the filter selects.\<close>

fun writes_only :: "(string \<Rightarrow> 'v \<Rightarrow> bool) \<Rightarrow> 'v event \<Rightarrow> bool" where
  "writes_only flt (Save _ d) = list_all (\<lambda>(k, v). flt k v) d"
| "writes_only flt _ = True"

text \<open>The time axis of one batch row across the chunks of the logits.\<close>

definition row_of :: "'a list list list \<Rightarrow> nat \<Rightarrow> 'a list" where
  "row_of chunks b = concat (map (\<lambda>chunk. chunk ! b) chunks)"

section \<open>A small run for evaluation\<close>

text \<open>
  Constants chosen so that a whole run has three iterations, each of them an optimizer
  step, with a validation at step two and a periodic checkpoint at step three.
\<close>

definition small_literals :: literals where
  "small_literals =
     \<lparr> eval_interval = 2, save_interval = 3, eval_iters = 100, log_interval = 1,
       devices = 128, learning_rate = round_double (3 / 1000), micro_batch_size = 1,
       epoch_size = 128, num_epochs = 3, weight_decay = round_double (2 / 100) \<rparr>"

definition small_hparams :: hparams where
  "small_hparams =
     literals.extend small_literals
       \<lparr> batch_size = 1, gradient_accumulation_iters = 1, max_iters = 3, warmup_steps = 2 \<rparr>"

definition source_hparams :: hparams where
  "source_hparams =
     literals.extend source_literals
       \<lparr> batch_size = 128, gradient_accumulation_iters = 64, max_iters = 125000,
         warmup_steps = 781 \<rparr>"

definition demo_world :: "(nat, int) world" where
  "demo_world =
     \<lparr> xla = False, global_rank = 0,
       get_batch = (\<lambda>i. ([[1, 2, 3], [4, 5, 6]], [[1, 2, 3], [4, 5, 6]])),
       model_forward = (\<lambda>i x. [map (take 2) x, map (drop 2) x]),
       chunked_cross_entropy = (\<lambda>logits targets. 1 / 2),
       optimizer_update = (\<lambda>i k v. v + 1),
       adapter_filter = (\<lambda>k v. k = ''adapter_scale''),
       gpt_init = [(''wte'', 0), (''lm_head'', 0)],
       adapter_v2_params = [(''adapter_scale'', 1)],
       lazy_load = (\<lambda>p. [(''wte'', 7), (''adapter_scale'', 9)]) \<rparr>"

section \<open>Module level: what importing the script guarantees\<close>

lemma round_double_zero: "round_double 0 = 0"
  by (simp add: round_double_def)

text \<open>
  The model rounds as the machine does: \<open>3e-3\<close> is \<open>3458764513820541 / 2 ^ 60\<close>, and
  multiplying it by \<open>6\<close> and dividing by \<open>6.0\<close> does not give it back, whereas \<open>781\<close> does.
\<close>

lemma double_of_learning_rate: "round_double (3 / 1000) = 3458764513820541 / 2 ^ 60"
  by code_simp


lemma warmup_endpoint_6:
  "round_double (round_double (round_double (3 / 1000) * 6) / 6) \<noteq> round_double (3 / 1000)"
  by code_simp

lemma floor_3125_4: "\<lfloor>3125 / 4 :: rat\<rfloor> = 781"
  by (simp add: floor_eq_iff)

lemma module_body_source: "module_body source_literals = Inr source_hparams"
  using floor_3125_4
  by (simp add: module_body_def source_literals_def source_hparams_def py_truediv_def
      py_float_floordiv_def py_floordiv_def)

lemma module_body_small: "module_body small_literals = Inr small_hparams"
  by (simp add: module_body_def small_literals_def small_hparams_def py_truediv_def
      py_float_floordiv_def py_floordiv_def)

lemma module_body_unfold:
  "module_body c =
     (if devices c = 0 \<or> micro_batch_size c = 0 then Inl ZeroDivisionError
      else if \<not> 0 < \<lfloor>128 / rat_of_int (devices c) / rat_of_int (micro_batch_size c)\<rfloor>
      then Inl AssertionError
      else Inr (literals.extend c
             \<lparr> batch_size = 128 / rat_of_int (devices c),
               gradient_accumulation_iters =
                 of_int \<lfloor>128 / rat_of_int (devices c) / rat_of_int (micro_batch_size c)\<rfloor>,
               max_iters = num_epochs c * (epoch_size c div micro_batch_size c) div devices c,
               warmup_steps =
                 of_int \<lfloor>rat_of_int (2 * (epoch_size c div micro_batch_size c) div devices c)
                   / of_int \<lfloor>128 / rat_of_int (devices c)
                               / rat_of_int (micro_batch_size c)\<rfloor>\<rfloor> \<rparr>))"
proof -
  have pos: "(0 < rat_of_int q) = (0 < q)" for q by simp
  show ?thesis
    unfolding module_body_def py_truediv_def py_float_floordiv_def py_floordiv_def pos
    by (simp del: zero_less_floor of_int_0_less_iff)
qed

lemma module_body_Inr_iff:
  "(\<exists>hp. module_body c = Inr hp) \<longleftrightarrow>
     devices c \<noteq> 0 \<and> micro_batch_size c \<noteq> 0 \<and>
     0 < \<lfloor>128 / rat_of_int (devices c) / rat_of_int (micro_batch_size c)\<rfloor>"
  unfolding module_body_unfold by (simp del: zero_less_floor)

lemma module_body_gai:
  assumes "module_body c = Inr hp"
  shows "gradient_accumulation_iters hp =
           of_int \<lfloor>128 / rat_of_int (devices c) / rat_of_int (micro_batch_size c)\<rfloor>"
    and "0 < gradient_accumulation_iters hp"
  using assms unfolding module_body_unfold
  by (auto simp del: zero_less_floor simp: literals.extend_def split: if_splits)

lemma module_body_literals:
  assumes "module_body c = Inr hp"
  shows "literals.truncate hp = c" and "batch_size hp = 128 / rat_of_int (devices c)"
  using assms unfolding module_body_unfold
  by (auto simp del: zero_less_floor simp: literals.extend_def literals.truncate_def
      split: if_splits)

lemma module_body_warmup_int:
  assumes "module_body c = Inr hp"
  shows "\<exists>n. warmup_steps hp = rat_of_int n"
  using assms unfolding module_body_unfold
  by (auto simp del: zero_less_floor simp: literals.extend_def split: if_splits)

lemma is_accumulating_defined:
  "gradient_accumulation_iters hp \<noteq> 0 \<Longrightarrow> \<exists>acc. is_accumulating hp i = Inr acc"
  by (simp add: is_accumulating_def py_float_mod_def)

lemma floor_div_pos_iff:
  "0 < (m::int) \<Longrightarrow> 0 < \<lfloor>(b::rat) / of_int m\<rfloor> \<longleftrightarrow> of_int m \<le> b"
  by (simp add: pos_le_divide_eq)

text \<open>
  C8. With the constants written in the file (\<open>devices = 1\<close>, \<open>micro_batch_size = 2\<close>,
  \<open>epoch_size = 50000\<close>, \<open>num_epochs = 5\<close>) the top-level statements run without raising and
  leave \<open>batch_size = 128\<close>, \<open>gradient_accumulation_iters = 64\<close>, \<open>max_iters = 125000\<close> and
  \<open>warmup_steps = 781\<close>, the last being
  \<open>2 * (epoch_size // micro_batch_size) // devices // gradient_accumulation_iters\<close>.
\<close>

theorem default_hyperparameters:
  "module_body source_literals =
     Inr (literals.extend source_literals
           \<lparr> batch_size = 128, gradient_accumulation_iters = 64, max_iters = 125000,
             warmup_steps = 781 \<rparr>)
   \<and> devices source_literals = 1 \<and> micro_batch_size source_literals = 2
   \<and> epoch_size source_literals = 50000 \<and> num_epochs source_literals = 5
   \<and> (781 :: rat) = of_int ((2 * (50000 div 2) div 1) div 64)"
  using module_body_source
  by (simp add: source_hparams_def source_literals_def)

text \<open>
  C10. The top-level statements finish without raising exactly when
  \<open>batch_size // micro_batch_size\<close> can be computed and is positive; when it can be
  computed and is not positive, the \<open>assert\<close> raises \<open>AssertionError\<close>. For a positive
  \<open>micro_batch_size\<close>, positivity of the quotient is \<open>batch_size >= micro_batch_size\<close>. So
  after a successful import \<open>gradient_accumulation_iters\<close> is positive and the modulo of
  the accumulation test never divides by zero, at any iteration.
\<close>

theorem import_requires_positive_accumulation:
  "((\<exists>hp. module_body c = Inr hp) \<longleftrightarrow>
      devices c \<noteq> 0 \<and> micro_batch_size c \<noteq> 0 \<and>
      0 < \<lfloor>128 / rat_of_int (devices c) / rat_of_int (micro_batch_size c)\<rfloor>)
   \<and> (devices c \<noteq> 0 \<and> micro_batch_size c \<noteq> 0 \<and>
        \<not> 0 < \<lfloor>128 / rat_of_int (devices c) / rat_of_int (micro_batch_size c)\<rfloor>
        \<longrightarrow> module_body c = Inl AssertionError)
   \<and> (0 < micro_batch_size c \<longrightarrow>
        (0 < \<lfloor>128 / rat_of_int (devices c) / rat_of_int (micro_batch_size c)\<rfloor>
         \<longleftrightarrow> rat_of_int (micro_batch_size c) \<le> 128 / rat_of_int (devices c)))
   \<and> (module_body c = Inr hp \<longrightarrow>
        0 < gradient_accumulation_iters hp
        \<and> gradient_accumulation_iters hp =
            of_int \<lfloor>batch_size hp / rat_of_int (micro_batch_size hp)\<rfloor>
        \<and> (\<forall>iter_num. \<exists>acc. is_accumulating hp iter_num = Inr acc))"
proof (intro conjI impI)
  show "(\<exists>hp. module_body c = Inr hp) \<longleftrightarrow>
      devices c \<noteq> 0 \<and> micro_batch_size c \<noteq> 0 \<and>
      0 < \<lfloor>128 / rat_of_int (devices c) / rat_of_int (micro_batch_size c)\<rfloor>"
    by (rule module_body_Inr_iff)
next
  assume "devices c \<noteq> 0 \<and> micro_batch_size c \<noteq> 0 \<and>
        \<not> 0 < \<lfloor>128 / rat_of_int (devices c) / rat_of_int (micro_batch_size c)\<rfloor>"
  then show "module_body c = Inl AssertionError"
    unfolding module_body_unfold by (simp del: zero_less_floor)
next
  assume "0 < micro_batch_size c"
  then show "0 < \<lfloor>128 / rat_of_int (devices c) / rat_of_int (micro_batch_size c)\<rfloor>
         \<longleftrightarrow> rat_of_int (micro_batch_size c) \<le> 128 / rat_of_int (devices c)"
    by (rule floor_div_pos_iff)
next
  assume ok: "module_body c = Inr hp"
  show "0 < gradient_accumulation_iters hp"
    using module_body_gai(2) [OF ok] .
  have "micro_batch_size hp = micro_batch_size c"
    using module_body_literals(1) [OF ok] by (auto simp: literals.truncate_def)
  then show "gradient_accumulation_iters hp =
            of_int \<lfloor>batch_size hp / rat_of_int (micro_batch_size hp)\<rfloor>"
    using module_body_gai(1) [OF ok] module_body_literals(2) [OF ok] by simp
  show "\<forall>iter_num. \<exists>acc. is_accumulating hp iter_num = Inr acc"
    using module_body_gai(2) [OF ok] is_accumulating_defined [of hp] by simp
qed

theorem import_requires_positive_accumulation_witness:
  "module_body source_literals = Inr source_hparams
   \<and> 0 < gradient_accumulation_iters source_hparams
   \<and> (\<exists>acc. is_accumulating source_hparams 63 = Inr acc)
   \<and> module_body (source_literals\<lparr> devices := 256 \<rparr>) = Inl AssertionError
   \<and> rat_of_int (micro_batch_size source_literals) \<le> 128 / rat_of_int (devices source_literals)"
proof -
  have a: "0 < gradient_accumulation_iters source_hparams
           \<and> (\<forall>iter_num. \<exists>acc. is_accumulating source_hparams iter_num = Inr acc)"
    using import_requires_positive_accumulation [of source_literals source_hparams]
      module_body_source by blast
  have "\<lfloor>1 / 4 :: rat\<rfloor> = 0" by (simp add: floor_eq_iff)
  then have b: "module_body (source_literals\<lparr> devices := 256 \<rparr>) = Inl AssertionError"
    using import_requires_positive_accumulation [of "source_literals\<lparr> devices := 256 \<rparr>"]
    by (simp add: source_literals_def)
  have c: "rat_of_int (micro_batch_size source_literals)
             \<le> 128 / rat_of_int (devices source_literals)"
    by (simp add: source_literals_def)
  show ?thesis using a b c module_body_source by simp
qed

section \<open>The loss scores output \<open>n\<close> against token \<open>n + 1\<close>\<close>

lemma shift_logits_snoc:
  "shift_logits (chunks @ [chunk]) = Inr (chunks @ [map butlast chunk])"
  by (cases chunks) (simp_all add: shift_logits_def)

lemma shift_logits_nonempty:
  assumes "logits \<noteq> []"
  shows "shift_logits logits = Inr (butlast logits @ [map butlast (last logits)])"
proof -
  have "logits = butlast logits @ [last logits]"
    using assms by simp
  then have "shift_logits logits = shift_logits (butlast logits @ [last logits])"
    by simp
  then show ?thesis
    by (simp only: shift_logits_snoc)
qed

lemma shift_logits_empty: "shift_logits [] = Inl IndexError"
  by (simp add: shift_logits_def)

lemma row_of_snoc: "row_of (chunks @ [chunk]) b = row_of chunks b @ chunk ! b"
  by (simp add: row_of_def)

lemma row_of_shifted:
  assumes "logits \<noteq> []" and "b < length (last logits)" and "last logits ! b \<noteq> []"
  shows "row_of (butlast logits @ [map butlast (last logits)]) b = butlast (row_of logits b)"
proof -
  have split: "logits = butlast logits @ [last logits]"
    using assms(1) by simp
  have "row_of logits b = row_of (butlast logits) b @ last logits ! b"
    using row_of_snoc [of "butlast logits" "last logits" b] split by simp
  then have "butlast (row_of logits b) = row_of (butlast logits) b @ butlast (last logits ! b)"
    using assms(3) by (simp add: butlast_append)
  moreover have "row_of (butlast logits @ [map butlast (last logits)]) b
                   = row_of (butlast logits) b @ butlast (last logits ! b)"
    using assms(2) by (simp add: row_of_snoc)
  ultimately show ?thesis by simp
qed

text \<open>
  C7. The loss of an iteration is \<open>chunked_cross_entropy\<close> applied to the logits whose
  last chunk has lost its last time position and to the targets without their first
  position. Along the time axis of any batch row the shifted logits are the original ones
  without the last output, the shifted targets are the original ones without the first
  token, both have the same length, and the output at position \<open>n\<close> meets the token at
  position \<open>n + 1\<close>.
\<close>

theorem loss_scores_next_token:
  assumes "model_forward w iter_num input_ids = logits"
    and "logits \<noteq> []"
    and "b < length (last logits)"
    and "last logits ! b \<noteq> []"
    and "b < length targets"
    and "length (row_of logits b) = length (targets ! b)"
    and "Suc n < length (targets ! b)"
  shows "\<exists>shifted.
           shifted = butlast logits @ [map butlast (last logits)]
         \<and> compute_loss w iter_num input_ids targets
             = Inr (chunked_cross_entropy w shifted (map (drop 1) targets))
         \<and> row_of shifted b = butlast (row_of logits b)
         \<and> map (drop 1) targets ! b = drop 1 (targets ! b)
         \<and> length (row_of shifted b) = length (map (drop 1) targets ! b)
         \<and> row_of shifted b ! n = row_of logits b ! n
         \<and> map (drop 1) targets ! b ! n = targets ! b ! Suc n"
proof -
  let ?shifted = "butlast logits @ [map butlast (last logits)]"
  have loss: "compute_loss w iter_num input_ids targets
                = Inr (chunked_cross_entropy w ?shifted (map (drop 1) targets))"
    using assms(1) shift_logits_nonempty [OF assms(2)]
    by (simp add: compute_loss_def shift_targets_def)
  have row: "row_of ?shifted b = butlast (row_of logits b)"
    using row_of_shifted [OF assms(2) assms(3) assms(4)] .
  have tgt: "map (drop 1) targets ! b = drop 1 (targets ! b)"
    using assms(5) by simp
  have len: "length (row_of ?shifted b) = length (map (drop 1) targets ! b)"
    using row tgt assms(6) by simp
  have out: "row_of ?shifted b ! n = row_of logits b ! n"
    using row assms(6) assms(7) by (simp add: nth_butlast)
  have tok: "map (drop 1) targets ! b ! n = targets ! b ! Suc n"
    using tgt assms(7) by simp
  show ?thesis
    using loss row tgt len out tok by blast
qed

theorem loss_scores_next_token_witness:
  "compute_loss demo_world 0 [[1, 2, 3], [4, 5, 6]] [[1, 2, 3], [4, 5, 6]]
     = Inr (chunked_cross_entropy demo_world [[[1, 2], [4, 5]], [[], []]] [[2, 3], [5, 6]])
   \<and> row_of [[[1, 2], [4, 5]], [[], []]] 1 = [4 :: nat, 5]
   \<and> row_of [[[1, 2], [4, 5]], [[3], [6]]] 1 ! 1 = (5 :: nat)
   \<and> [[1, 2, 3], [4, 5, 6]] ! 1 ! Suc 1 = (6 :: nat)"
proof -
  have fw: "model_forward demo_world 0 [[1, 2, 3], [4, 5, 6]] = [[[1, 2], [4, 5]], [[3], [6]]]"
    by (simp add: demo_world_def)
  have "\<exists>shifted.
           shifted = butlast [[[1, 2], [4, 5]], [[3], [6]]]
                       @ [map butlast (last [[[1, 2], [4, 5]], [[3 :: nat], [6]]])]
         \<and> compute_loss demo_world 0 [[1, 2, 3], [4, 5, 6]] [[1, 2, 3], [4, 5, 6]]
             = Inr (chunked_cross_entropy demo_world shifted
                      (map (drop 1) [[1, 2, 3], [4, 5, 6]]))
         \<and> row_of shifted 1 = butlast (row_of [[[1, 2], [4, 5]], [[3], [6]]] 1)
         \<and> map (drop 1) [[1, 2, 3], [4, 5, 6 :: nat]] ! 1 = drop 1 ([[1, 2, 3], [4, 5, 6]] ! 1)
         \<and> length (row_of shifted 1) = length (map (drop 1) [[1, 2, 3], [4, 5, 6 :: nat]] ! 1)
         \<and> row_of shifted 1 ! 1 = row_of [[[1, 2], [4, 5]], [[3], [6]]] 1 ! 1
         \<and> map (drop 1) [[1, 2, 3], [4, 5, 6 :: nat]] ! 1 ! 1 = [[1, 2, 3], [4, 5, 6]] ! 1 ! Suc 1"
    by (rule loss_scores_next_token [OF fw]) (simp_all add: row_of_def)
  then show ?thesis
    by (simp add: row_of_def)
qed

section \<open>The model handed to the optimizer and to \<open>train\<close>\<close>



lemma length_loaded_model: "length (loaded_model w cd) = length (gpt_init w)"
  by (simp add: loaded_model_def load_state_dict_def GPT_def)

lemma names_load_state_dict: "map fst (load_state_dict ckpt m) = map fst m"
  by (induction m) (auto simp: load_state_dict_def split: option.splits)

lemma names_GPT: "map fst (GPT w) = map fst (gpt_init w)"
  by (simp add: GPT_def case_prod_beta)

lemma load_state_dict_missing:
  assumes "i < length m" and "fst (m ! i) \<notin> fst ` set ckpt"
  shows "load_state_dict ckpt m ! i = m ! i"
proof -
  have "map_of ckpt (fst (m ! i)) = None"
    using assms(2) by (simp add: map_of_eq_None_iff)
  then show ?thesis
    using assms(1) by (simp add: load_state_dict_def case_prod_beta)
qed

lemma GPT_nth:
  "i < length (gpt_init w)
     \<Longrightarrow> GPT w ! i = (fst (gpt_init w ! i), \<lparr> data = snd (gpt_init w ! i), requires_grad = True \<rparr>)"
  by (simp add: GPT_def case_prod_beta)

lemma prepared_model_adapter_nth:
  assumes "j < length (adapter_v2_params w)"
  shows "prepared_model w cd ! (length (gpt_init w) + j)
           = (fst (adapter_v2_params w ! j),
              \<lparr> data = snd (adapter_v2_params w ! j),
                requires_grad = adapter_filter w (fst (adapter_v2_params w ! j))
                                  (snd (adapter_v2_params w ! j)) \<rparr>)"
proof -
  let ?added = "map (\<lambda>(k, v). (k, \<lparr> data = v, requires_grad = True \<rparr>)) (adapter_v2_params w)"
  let ?mark = "\<lambda>(k, p). (k, p\<lparr> requires_grad := adapter_filter w k (data p) \<rparr>)"
  let ?n = "length (gpt_init w) + j"
  have whole: "prepared_model w cd = map ?mark (loaded_model w cd @ ?added)"
    by (simp add: prepared_model_def mark_only_adapter_v2_as_trainable_def
        add_adapter_v2_parameters_to_linear_layers_def)
  have idx: "?n < length (loaded_model w cd @ ?added)"
    using assms length_loaded_model [of w cd] by simp
  have at: "(loaded_model w cd @ ?added) ! ?n = ?added ! j"
    using length_loaded_model [of w cd] by (metis nth_append_length_plus)
  have added: "?added ! j
      = (fst (adapter_v2_params w ! j),
         \<lparr> data = snd (adapter_v2_params w ! j), requires_grad = True \<rparr>)"
    using assms by (simp add: case_prod_beta)
  have "prepared_model w cd ! ?n = ?mark ((loaded_model w cd @ ?added) ! ?n)"
    unfolding whole using idx by (rule nth_map)
  then show ?thesis
    unfolding at added by simp
qed



text \<open>
  C6. \<open>main\<close> initialises the model, then loads \<open>checkpoint_dir / "lit_model.pth"\<close> with
  \<open>strict=False\<close>, and only then adds the adapter-v2 parameters. The load keeps the names
  and order of the initialised parameters, and a parameter whose name is missing from the
  checkpoint keeps its initialised tensor. Each adapter-v2 parameter enters the model after
  the load with the tensor it was created with, whatever the checkpoint holds under its
  name.
\<close>

theorem checkpoint_load_precedes_adapters:
  "(\<exists>pre post. main_prologue hp w dd cd od
       = pre @ [InitModule, LoadStateDict (cd @ [''lit_model.pth'']) False, AddAdapterV2] @ post)
   \<and> loaded_model w cd = load_state_dict (lazy_load w (cd @ [''lit_model.pth''])) (GPT w)
   \<and> map fst (loaded_model w cd) = map fst (gpt_init w)
   \<and> (\<forall>i < length (gpt_init w).
         fst (gpt_init w ! i) \<notin> fst ` set (lazy_load w (cd @ [''lit_model.pth'']))
         \<longrightarrow> loaded_model w cd ! i
               = (fst (gpt_init w ! i),
                  \<lparr> data = snd (gpt_init w ! i), requires_grad = True \<rparr>))
   \<and> prepared_model w cd
       = mark_only_adapter_v2_as_trainable w
           (loaded_model w cd
            @ map (\<lambda>(k, v). (k, \<lparr> data = v, requires_grad = True \<rparr>)) (adapter_v2_params w))
   \<and> (\<forall>j < length (adapter_v2_params w).
         prepared_model w cd ! (length (gpt_init w) + j)
           = (fst (adapter_v2_params w ! j),
              \<lparr> data = snd (adapter_v2_params w ! j),
                requires_grad = adapter_filter w (fst (adapter_v2_params w ! j))
                                  (snd (adapter_v2_params w ! j)) \<rparr>))"
proof (intro conjI allI impI)
  show "\<exists>pre post. main_prologue hp w dd cd od
       = pre @ [InitModule, LoadStateDict (cd @ [''lit_model.pth'']) False, AddAdapterV2] @ post"
    by (rule exI [of _ "[CheckValidCheckpointDir cd, SeedEverything 1337]
          @ (if global_rank w = 0 then [MakeDirs od] else [])
          @ [TorchLoad (path_div dd ''train.pt''), TorchLoad (path_div dd ''test.pt''),
             Print ''Loading model'']"],
        rule exI [of _ "[MarkOnlyAdapterV2, Print ''Number of trainable parameters'',
             Print ''Number of non trainable parameters'',
             CreateOptimizer (make_optimizer hp (prepared_model w cd)),
             FabricSetup, SeedEverything (1337 + global_rank w)]"])
      (simp add: main_prologue_def checkpoint_path_def path_div_def)
  show "loaded_model w cd = load_state_dict (lazy_load w (cd @ [''lit_model.pth''])) (GPT w)"
    by (simp add: loaded_model_def checkpoint_path_def path_div_def)
  show "map fst (loaded_model w cd) = map fst (gpt_init w)"
    by (simp add: loaded_model_def names_load_state_dict names_GPT)
  show "prepared_model w cd
       = mark_only_adapter_v2_as_trainable w
           (loaded_model w cd
            @ map (\<lambda>(k, v). (k, \<lparr> data = v, requires_grad = True \<rparr>)) (adapter_v2_params w))"
    by (simp add: prepared_model_def add_adapter_v2_parameters_to_linear_layers_def)
next
  fix i
  assume i: "i < length (gpt_init w)"
    and missing: "fst (gpt_init w ! i) \<notin> fst ` set (lazy_load w (cd @ [''lit_model.pth'']))"
  have len: "i < length (GPT w)"
    using i by (simp add: GPT_def)
  have "fst (GPT w ! i) \<notin> fst ` set (lazy_load w (cd @ [''lit_model.pth'']))"
    using missing GPT_nth [OF i] by simp
  then have "load_state_dict (lazy_load w (cd @ [''lit_model.pth''])) (GPT w) ! i = GPT w ! i"
    using load_state_dict_missing [OF len] by blast
  then show "loaded_model w cd ! i
               = (fst (gpt_init w ! i),
                  \<lparr> data = snd (gpt_init w ! i), requires_grad = True \<rparr>)"
    using GPT_nth [OF i] by (simp add: loaded_model_def checkpoint_path_def path_div_def)
next
  fix j
  assume "j < length (adapter_v2_params w)"
  then show "prepared_model w cd ! (length (gpt_init w) + j)
           = (fst (adapter_v2_params w ! j),
              \<lparr> data = snd (adapter_v2_params w ! j),
                requires_grad = adapter_filter w (fst (adapter_v2_params w ! j))
                                  (snd (adapter_v2_params w ! j)) \<rparr>)"
    by (rule prepared_model_adapter_nth)
qed

theorem checkpoint_load_precedes_adapters_witness:
  "lazy_load demo_world [''ckpt'', ''lit_model.pth''] = [(''wte'', 7), (''adapter_scale'', 9)]
   \<and> loaded_model demo_world [''ckpt'']
       = [(''wte'', \<lparr> data = 7, requires_grad = True \<rparr>),
          (''lm_head'', \<lparr> data = 0, requires_grad = True \<rparr>)]
   \<and> loaded_model demo_world [''ckpt''] ! 1 = (''lm_head'', \<lparr> data = 0, requires_grad = True \<rparr>)
   \<and> prepared_model demo_world [''ckpt''] ! 2
       = (''adapter_scale'', \<lparr> data = 1, requires_grad = True \<rparr>)"
proof -
  have ck: "lazy_load demo_world [''ckpt'', ''lit_model.pth'']
              = [(''wte'', 7), (''adapter_scale'', 9)]"
    by (simp add: demo_world_def)
  have lm: "loaded_model demo_world [''ckpt'']
       = [(''wte'', \<lparr> data = 7, requires_grad = True \<rparr>),
          (''lm_head'', \<lparr> data = 0, requires_grad = True \<rparr>)]"
    by (simp add: loaded_model_def load_state_dict_def GPT_def demo_world_def
        checkpoint_path_def path_div_def)
  have g: "gpt_init demo_world = [(''wte'', 0), (''lm_head'', 0)]"
    and a: "adapter_v2_params demo_world = [(''adapter_scale'', 1)]"
    and f: "adapter_filter demo_world ''adapter_scale'' 1"
    by (simp_all add: demo_world_def)
  have all: "(\<forall>i < length (gpt_init demo_world).
         fst (gpt_init demo_world ! i)
           \<notin> fst ` set (lazy_load demo_world ([''ckpt''] @ [''lit_model.pth'']))
         \<longrightarrow> loaded_model demo_world [''ckpt''] ! i
               = (fst (gpt_init demo_world ! i),
                  \<lparr> data = snd (gpt_init demo_world ! i), requires_grad = True \<rparr>))
   \<and> (\<forall>j < length (adapter_v2_params demo_world).
         prepared_model demo_world [''ckpt''] ! (length (gpt_init demo_world) + j)
           = (fst (adapter_v2_params demo_world ! j),
              \<lparr> data = snd (adapter_v2_params demo_world ! j),
                requires_grad = adapter_filter demo_world (fst (adapter_v2_params demo_world ! j))
                                  (snd (adapter_v2_params demo_world ! j)) \<rparr>))"
    using checkpoint_load_precedes_adapters [of small_hparams demo_world "[]" "[''ckpt'']" "[]"]
    by blast
  have "1 < length (gpt_init demo_world)
          \<longrightarrow> fst (gpt_init demo_world ! 1)
                \<notin> fst ` set (lazy_load demo_world ([''ckpt''] @ [''lit_model.pth'']))
          \<longrightarrow> loaded_model demo_world [''ckpt''] ! 1
               = (fst (gpt_init demo_world ! 1),
                  \<lparr> data = snd (gpt_init demo_world ! 1), requires_grad = True \<rparr>)"
    using all by blast
  then have one: "loaded_model demo_world [''ckpt''] ! 1
               = (''lm_head'', \<lparr> data = 0, requires_grad = True \<rparr>)"
    unfolding g using ck by simp
  have "0 < length (adapter_v2_params demo_world)
          \<longrightarrow> prepared_model demo_world [''ckpt''] ! (length (gpt_init demo_world) + 0)
           = (fst (adapter_v2_params demo_world ! 0),
              \<lparr> data = snd (adapter_v2_params demo_world ! 0),
                requires_grad = adapter_filter demo_world (fst (adapter_v2_params demo_world ! 0))
                                  (snd (adapter_v2_params demo_world ! 0)) \<rparr>)"
    using all by blast
  then have two: "prepared_model demo_world [''ckpt''] ! 2
       = (''adapter_scale'', \<lparr> data = 1, requires_grad = True \<rparr>)"
    unfolding g a using f by (simp add: numeral_2_eq_2)
  show ?thesis
    using ck lm one two by simp
qed

section \<open>One iteration of the loop\<close>

lemma emit_simps:
  "trace (emit evs s) = trace s @ evs"
  "step_count (emit evs s) = step_count s"
  "total_lengths (emit evs s) = total_lengths s"
  "model (emit evs s) = model s"
  "optim (emit evs s) = optim s"
  by (simp_all add: emit_def)

lemma and_then_Inr:
  "and_then r f = Inr s' \<longleftrightarrow> (\<exists>s1. r = Inr s1 \<and> f s1 = Inr s')"
  by (cases r) (simp_all add: and_then_def)

lemma linear_warmup_Inr:
  assumes "linear_warmup hp s = Inr s1"
  shows "s1 = s\<lparr> optim := optim s1 \<rparr>"
    and "rat_of_int (step_count s) \<le> warmup_steps hp \<Longrightarrow>
           warmup_steps hp \<noteq> 0 \<and>
           optim s1 = set_lr (round_double (round_double
                                (learning_rate hp * rat_of_int (step_count s))
                                / warmup_steps hp))
                        (optim s)"
    and "\<not> rat_of_int (step_count s) \<le> warmup_steps hp \<Longrightarrow> s1 = s"
  using assms
  by (auto simp: linear_warmup_def py_float_truediv_def py_float_mul_def split: if_splits)

lemma forward_backward_Inr:
  assumes "forward_backward hp w i acc input_ids targets s = Inr s3"
  shows "\<exists>loss. compute_loss w i input_ids targets = Inr loss
           \<and> s3 = emit [Forward acc, Backward (loss / gradient_accumulation_iters hp) acc] s"
  using assms
  by (auto simp: forward_backward_def emit_def Let_def split: sum.splits)

lemma step_or_accumulate_simps:
  "step_count (step_or_accumulate w i acc s) = step_count s + (if acc then 0 else 1)"
  "total_lengths (step_or_accumulate w i acc s) = total_lengths s"
  "optim (step_or_accumulate w i acc s) = optim s"
  "model (step_or_accumulate w i acc s)
     = (if acc then model s else optimizer_step w i (optim s) (model s))"
  "trace (step_or_accumulate w i acc s)
     = trace s @ (if \<not> acc then [OptimizerStep (group_lrs (optim s)), ZeroGrad]
                  else if xla w then [MarkStep] else [])"
  by (simp_all add: step_or_accumulate_def emit_def)

lemma monitor_and_log_Inr:
  assumes "monitor_and_log hp i input_ids s = Inr s4"
  shows "log_interval hp \<noteq> 0"
    and "step_count s4 = step_count s" and "optim s4 = optim s" and "model s4 = model s"
    and "total_lengths s4 = total_lengths s + int (size1 input_ids)"
    and "trace s4 = trace s
           @ [BatchEnd ((int i + 1) * micro_batch_size hp)
                (total_lengths s + int (size1 input_ids))]
           @ (if int i mod log_interval hp = 0 then [Print ''iter''] else [])"
  using assms
  by (auto simp: monitor_and_log_def emit_def py_mod_def Let_def split: if_splits)

lemma maybe_validate_Inr:
  assumes "maybe_validate hp acc s = Inr s5"
  shows "step_count s5 = step_count s" and "optim s5 = optim s" and "model s5 = model s"
    and "total_lengths s5 = total_lengths s"
    and "trace s5 = trace s
           @ (if \<not> acc \<and> step_count s mod eval_interval hp = 0
              then [Validate, EvalEnd, Print ''val loss'', Barrier] else [])"
    and "\<not> acc \<Longrightarrow> eval_interval hp \<noteq> 0"
  using assms
  by (auto simp: maybe_validate_def emit_def py_mod_def split: if_splits)

lemma maybe_save_Inr:
  assumes "maybe_save hp w out_dir i acc s = Inr s6"
  shows "step_count s6 = step_count s" and "optim s6 = optim s" and "model s6 = model s"
    and "total_lengths s6 = total_lengths s"
    and "trace s6 = trace s
           @ (if \<not> acc \<and> step_count s mod save_interval hp = 0
              then save_adapter_v2_checkpoint w (model s) (path_div out_dir (ckpt_name i))
              else [])"
    and "\<not> acc \<Longrightarrow> save_interval hp \<noteq> 0"
  using assms
  by (auto simp: maybe_save_def emit_def py_mod_def split: if_splits)

lemma train_iter_Inr:
  assumes "train_iter hp w out_dir i s = Inr s'"
  shows "\<exists>acc loss s1.
           is_accumulating hp i = Inr acc
         \<and> linear_warmup hp s = Inr s1
         \<and> compute_loss w i (fst (get_batch w i)) (snd (get_batch w i)) = Inr loss
         \<and> step_count s' = step_count s + (if acc then 0 else 1)
         \<and> optim s' = optim s1
         \<and> model s' = (if acc then model s else optimizer_step w i (optim s1) (model s))
         \<and> total_lengths s' = total_lengths s + int (size1 (fst (get_batch w i)))
         \<and> trace s' = trace s
             @ [GetBatch i (i = 0), Forward acc,
                Backward (loss / gradient_accumulation_iters hp) acc]
             @ (if \<not> acc then [OptimizerStep (group_lrs (optim s1)), ZeroGrad]
                else if xla w then [MarkStep] else [])
             @ [BatchEnd ((int i + 1) * micro_batch_size hp) (total_lengths s')]
             @ (if int i mod log_interval hp = 0 then [Print ''iter''] else [])
             @ (if \<not> acc \<and> step_count s' mod eval_interval hp = 0
                then [Validate, EvalEnd, Print ''val loss'', Barrier] else [])
             @ (if \<not> acc \<and> step_count s' mod save_interval hp = 0
                then save_adapter_v2_checkpoint w (model s') (path_div out_dir (ckpt_name i))
                else [])"
proof -
  obtain input_ids targets where batch: "get_batch w i = (input_ids, targets)"
    by (cases "get_batch w i")
  from assms obtain s1 where lw: "linear_warmup hp s = Inr s1"
    and rest1: "(case is_accumulating hp i of
                   Inl e \<Rightarrow> Inl (e, emit [GetBatch i (i = 0)] s1)
                 | Inr acc \<Rightarrow>
                     and_then (forward_backward hp w i acc input_ids targets
                                 (emit [GetBatch i (i = 0)] s1)) (\<lambda>s3.
                     and_then (monitor_and_log hp i input_ids
                                 (step_or_accumulate w i acc s3)) (\<lambda>s4.
                     and_then (maybe_validate hp acc s4) (\<lambda>s5.
                     maybe_save hp w out_dir i acc s5)))) = Inr s'"
    unfolding train_iter_def and_then_Inr batch by (auto simp: Let_def)
  from rest1 obtain acc where acc: "is_accumulating hp i = Inr acc"
    by (cases "is_accumulating hp i") auto
  from rest1 acc obtain s3 s4 s5 where
        fb: "forward_backward hp w i acc input_ids targets (emit [GetBatch i (i = 0)] s1) = Inr s3"
    and ml: "monitor_and_log hp i input_ids (step_or_accumulate w i acc s3) = Inr s4"
    and mv: "maybe_validate hp acc s4 = Inr s5"
    and ms: "maybe_save hp w out_dir i acc s5 = Inr s'"
    by (auto simp: and_then_Inr)
  from forward_backward_Inr [OF fb] obtain loss where
        loss: "compute_loss w i input_ids targets = Inr loss"
    and s3: "s3 = emit [Forward acc, Backward (loss / gradient_accumulation_iters hp) acc]
                    (emit [GetBatch i (i = 0)] s1)"
    by blast
  have s1: "step_count s1 = step_count s" "model s1 = model s" "trace s1 = trace s"
    "total_lengths s1 = total_lengths s"
    using linear_warmup_Inr(1) [OF lw]
    by (metis train_state.select_convs train_state.surjective train_state.update_convs(4))+
  note ml' = monitor_and_log_Inr [OF ml] and mv' = maybe_validate_Inr [OF mv]
    and ms' = maybe_save_Inr [OF ms]
  have sc: "step_count s' = step_count s + (if acc then 0 else 1)"
    using ms'(1) mv'(1) ml'(2) s3 s1 by (simp add: step_or_accumulate_simps emit_simps)
  have op: "optim s' = optim s1"
    using ms'(2) mv'(2) ml'(3) s3 by (simp add: step_or_accumulate_simps emit_simps)
  have mo: "model s' = (if acc then model s else optimizer_step w i (optim s1) (model s))"
    using ms'(3) mv'(3) ml'(4) s3 s1 by (simp add: step_or_accumulate_simps emit_simps)
  have tl: "total_lengths s' = total_lengths s + int (size1 input_ids)"
    using ms'(4) mv'(4) ml'(5) s3 s1 by (simp add: step_or_accumulate_simps emit_simps)
  have sc5: "step_count s5 = step_count s'" "step_count s4 = step_count s'"
    "model s5 = model s'"
    using ms'(1) mv'(1) ms'(3) by simp_all
  have tr: "trace s' = trace s
             @ [GetBatch i (i = 0), Forward acc,
                Backward (loss / gradient_accumulation_iters hp) acc]
             @ (if \<not> acc then [OptimizerStep (group_lrs (optim s1)), ZeroGrad]
                else if xla w then [MarkStep] else [])
             @ [BatchEnd ((int i + 1) * micro_batch_size hp) (total_lengths s')]
             @ (if int i mod log_interval hp = 0 then [Print ''iter''] else [])
             @ (if \<not> acc \<and> step_count s' mod eval_interval hp = 0
                then [Validate, EvalEnd, Print ''val loss'', Barrier] else [])
             @ (if \<not> acc \<and> step_count s' mod save_interval hp = 0
                then save_adapter_v2_checkpoint w (model s') (path_div out_dir (ckpt_name i))
                else [])"
    unfolding ms'(5) mv'(5) ml'(6) sc5 tl
    using s3 s1 by (simp add: step_or_accumulate_simps emit_simps)
  show ?thesis
    using acc lw loss sc op mo tl tr batch by simp
qed

section \<open>An iteration that raises\<close>

lemma and_then_Inl:
  "and_then r f = Inl x \<longleftrightarrow> r = Inl x \<or> (\<exists>s1. r = Inr s1 \<and> f s1 = Inl x)"
  by (cases r) (simp_all add: and_then_def)

lemma linear_warmup_Inl: "linear_warmup hp s = Inl (e, s'') \<Longrightarrow> s'' = s"
  by (auto simp: linear_warmup_def py_float_truediv_def split: if_splits)

lemma forward_backward_Inl:
  "forward_backward hp w i acc input_ids targets s = Inl (e, s'') \<Longrightarrow> s'' = emit [Forward acc] s"
  by (auto simp: forward_backward_def Let_def split: sum.splits)

lemma monitor_and_log_Inl:
  assumes "monitor_and_log hp i input_ids s = Inl (e, s'')"
  shows "step_count s'' = step_count s"
    and "\<exists>a b. trace s'' = trace s @ [BatchEnd a b]"
  using assms
  by (auto simp: monitor_and_log_def emit_def py_mod_def Let_def split: if_splits)

lemma maybe_validate_Inl: "maybe_validate hp acc s = Inl (e, s'') \<Longrightarrow> s'' = s"
  by (auto simp: maybe_validate_def py_mod_def split: if_splits)

lemma maybe_save_Inl: "maybe_save hp w out_dir i acc s = Inl (e, s'') \<Longrightarrow> s'' = s"
  by (auto simp: maybe_save_def py_mod_def split: if_splits)

lemma linear_warmup_frame:
  assumes "linear_warmup hp s = Inr s1"
  shows "step_count s1 = step_count s" and "model s1 = model s" and "trace s1 = trace s"
    and "total_lengths s1 = total_lengths s"
  using assms
  by (auto simp: linear_warmup_def py_float_truediv_def split: if_splits)

text \<open>
  Whatever a raising iteration leaves behind, it wrote no checkpoint, and if it got as far
  as the optimizer step, that step ran with the rates the warmup had just set.
\<close>

lemma train_iter_Inl:
  assumes "train_iter hp w out_dir i s = Inl (e, s'')"
  shows "\<exists>evs. trace s'' = trace s @ evs \<and> filter is_save evs = []
           \<and> (filter is_step evs = [] \<and> step_count s'' = step_count s
              \<or> (\<exists>s1. linear_warmup hp s = Inr s1
                      \<and> filter is_step evs = [OptimizerStep (group_lrs (optim s1))]
                      \<and> step_count s'' = step_count s + 1))"
proof -
  obtain input_ids targets where batch: "get_batch w i = (input_ids, targets)"
    by (cases "get_batch w i")
  show ?thesis
  proof (cases "linear_warmup hp s")
    case (Inl x)
    then have "s'' = s"
      using assms linear_warmup_Inl [of hp s e s''] by (simp add: train_iter_def and_then_def)
    then show ?thesis by simp
  next
    case (Inr s1)
    note fr = linear_warmup_frame [OF Inr]
    let ?s2 = "emit [GetBatch i (i = 0)] s1"
    show ?thesis
    proof (cases "is_accumulating hp i")
      case (Inl x)
      then have "s'' = ?s2"
        using assms Inr batch by (simp add: train_iter_def and_then_def)
      then show ?thesis using fr by (simp add: emit_simps)
    next
      case acc: (Inr acc)
      from assms Inr batch acc have rest:
        "and_then (forward_backward hp w i acc input_ids targets ?s2) (\<lambda>s3.
         and_then (monitor_and_log hp i input_ids (step_or_accumulate w i acc s3)) (\<lambda>s4.
         and_then (maybe_validate hp acc s4) (\<lambda>s5.
         maybe_save hp w out_dir i acc s5))) = Inl (e, s'')"
        by (simp add: train_iter_def and_then_def)
      show ?thesis
      proof (cases "forward_backward hp w i acc input_ids targets ?s2")
        case (Inl x)
        then have "s'' = emit [Forward acc] ?s2"
          using rest forward_backward_Inl [of hp w i acc input_ids targets ?s2 e s'']
          by (simp add: and_then_def)
        then show ?thesis using fr by (simp add: emit_simps)
      next
        case fb: (Inr s3)
        from forward_backward_Inr [OF fb] obtain loss where
          s3: "s3 = emit [Forward acc, Backward (loss / gradient_accumulation_iters hp) acc] ?s2"
          by blast
        let ?s3' = "step_or_accumulate w i acc s3"
        have tr3: "trace ?s3' = trace s
                     @ [GetBatch i (i = 0), Forward acc,
                        Backward (loss / gradient_accumulation_iters hp) acc]
                     @ (if \<not> acc then [OptimizerStep (group_lrs (optim s1)), ZeroGrad]
                        else if xla w then [MarkStep] else [])"
          and sc3: "step_count ?s3' = step_count s + (if acc then 0 else 1)"
          using s3 fr by (simp_all add: step_or_accumulate_simps emit_simps)
        have after: "\<exists>tl. trace s'' = trace ?s3' @ tl \<and> filter is_save tl = []
                        \<and> filter is_step tl = [] \<and> step_count s'' = step_count ?s3'"
        proof (cases "monitor_and_log hp i input_ids ?s3'")
          case (Inl x)
          then have "monitor_and_log hp i input_ids ?s3' = Inl (e, s'')"
            using rest fb by (simp add: and_then_def)
          from monitor_and_log_Inl [OF this] show ?thesis by auto
        next
          case ml: (Inr s4)
          note ml' = monitor_and_log_Inr [OF ml]
          show ?thesis
          proof (cases "maybe_validate hp acc s4")
            case (Inl x)
            then have "s'' = s4"
              using rest fb ml maybe_validate_Inl [of hp acc s4 e s'']
              by (simp add: and_then_def)
            then show ?thesis using ml' by auto
          next
            case mv: (Inr s5)
            note mv' = maybe_validate_Inr [OF mv]
            have "maybe_save hp w out_dir i acc s5 = Inl (e, s'')"
              using rest fb ml mv by (simp add: and_then_def)
            then have "s'' = s5" by (rule maybe_save_Inl)
            then show ?thesis using ml' mv' by auto
          qed
        qed
        then obtain tl where tl: "trace s'' = trace ?s3' @ tl" "filter is_save tl = []"
          "filter is_step tl = []" "step_count s'' = step_count ?s3'"
          by blast
        show ?thesis
          using tl tr3 sc3 Inr by (cases acc) auto
      qed
    qed
  qed
qed

section \<open>The loop\<close>

lemma train_loop_append:
  "train_loop hp w out_dir (xs @ ys) s
     = and_then (train_loop hp w out_dir xs s) (train_loop hp w out_dir ys)"
  by (induction xs arbitrary: s) (auto simp: and_then_def split: sum.splits)

lemma state_before_0: "state_before hp w out_dir m opt 0 = Inr (train_start w m opt)"
  by (simp add: state_before_def)

lemma state_before_Suc:
  "state_before hp w out_dir m opt (Suc n)
     = and_then (state_before hp w out_dir m opt n) (train_iter hp w out_dir n)"
  by (simp add: state_before_def train_loop_append and_then_def split: sum.splits)

lemma train_is_state_before:
  "train hp w out_dir m opt = state_before hp w out_dir m opt (nat (max_iters hp))"
  by (simp add: train_def state_before_def)

lemma state_before_invariant:
  assumes "state_before hp w out_dir m opt n = Inr s"
    and "P (train_start w m opt)"
    and "\<And>i s s'. P s \<Longrightarrow> train_iter hp w out_dir i s = Inr s' \<Longrightarrow> P s'"
  shows "P s"
  using assms(1)
proof (induction n arbitrary: s)
  case 0
  then show ?case using assms(2) by (simp add: state_before_0)
next
  case (Suc n)
  then obtain s1 where "state_before hp w out_dir m opt n = Inr s1"
    and "train_iter hp w out_dir n s1 = Inr s"
    by (auto simp: state_before_Suc and_then_Inr)
  then show ?case using Suc.IH assms(3) by blast
qed

lemma train_loop_result:
  assumes "P s"
    and "\<And>i s s'. P s \<Longrightarrow> train_iter hp w out_dir i s = Inr s' \<Longrightarrow> P s'"
    and "\<And>i s e s'. P s \<Longrightarrow> train_iter hp w out_dir i s = Inl (e, s') \<Longrightarrow> Q s'"
    and "\<And>s. P s \<Longrightarrow> Q s"
  shows "Q (result_state (train_loop hp w out_dir iters s))"
  using assms(1)
proof (induction iters arbitrary: s)
  case Nil
  then show ?case using assms(4) by (simp add: result_state_def)
next
  case (Cons i iters)
  show ?case
  proof (cases "train_iter hp w out_dir i s")
    case (Inl x)
    obtain e s' where x: "x = (e, s')" by (cases x)
    have "Q s'" using assms(3) Cons.prems Inl x by blast
    then show ?thesis using Inl x by (simp add: and_then_def result_state_def)
  next
    case (Inr s')
    have "P s'" using assms(2) Cons.prems Inr by blast
    then show ?thesis using Cons.IH Inr by (simp add: and_then_def)
  qed
qed

section \<open>Gradient accumulation, validation and periodic checkpoints\<close>

lemma is_accumulating_Inr:
  "is_accumulating hp i = Inr acc \<Longrightarrow>
     \<exists>r. py_float_mod (rat_of_int (int i + 1)) (gradient_accumulation_iters hp) = Inr r
        \<and> acc = (r \<noteq> 0)"
  by (auto simp: is_accumulating_def split: sum.splits)

lemma demo_iter_returns:
  "\<exists>s'. train_iter source_hparams demo_world [''out''] 63
           (train_start demo_world [] (AdamW [] (3 / 1000) (2 / 100))) = Inr s'"
  "\<exists>s'. train_iter source_hparams demo_world [''out''] 0
           (train_start demo_world [] (AdamW [] (3 / 1000) (2 / 100))) = Inr s'"
proof -
  have fl: "\<lfloor>1 / 64 :: rat\<rfloor> = 0" by (simp add: floor_eq_iff)
  note defs = train_iter_def and_then_def linear_warmup_def forward_backward_def
      step_or_accumulate_def monitor_and_log_def maybe_validate_def maybe_save_def emit_def
      py_float_truediv_def py_float_mul_def round_double_zero py_mod_def is_accumulating_def
      py_float_mod_def source_hparams_def
      source_literals_def literals.extend_def demo_world_def train_start_def compute_loss_def
      shift_logits_def
  show "\<exists>s'. train_iter source_hparams demo_world [''out''] 63
           (train_start demo_world [] (AdamW [] (3 / 1000) (2 / 100))) = Inr s'"
    by (simp add: defs)
  show "\<exists>s'. train_iter source_hparams demo_world [''out''] 0
           (train_start demo_world [] (AdamW [] (3 / 1000) (2 / 100))) = Inr s'"
    by (simp add: defs fl)
qed

lemma float_mod_64: "py_float_mod (rat_of_int (int 63 + 1)) (gradient_accumulation_iters source_hparams) = Inr 0"
  "py_float_mod (rat_of_int (int 0 + 1)) (gradient_accumulation_iters source_hparams) = Inr 1"
  by (simp_all add: py_float_mod_def source_hparams_def literals.extend_def floor_eq_iff)

lemma train_iter_InrE:
  assumes "train_iter hp w out_dir iter_num s = Inr s'"
  obtains acc loss s1 where
        "is_accumulating hp iter_num = Inr acc"
    and "linear_warmup hp s = Inr s1"
    and "compute_loss w iter_num (fst (get_batch w iter_num)) (snd (get_batch w iter_num))
                 = Inr loss"
    and "step_count s' = step_count s + (if acc then 0 else 1)"
    and "optim s' = optim s1"
    and "model s' = (if acc then model s
                     else optimizer_step w iter_num (optim s1) (model s))"
    and "total_lengths s' = total_lengths s + int (size1 (fst (get_batch w iter_num)))"
    and "trace s' = trace s
             @ [GetBatch iter_num (iter_num = 0), Forward acc,
                Backward (loss / gradient_accumulation_iters hp) acc]
             @ (if \<not> acc then [OptimizerStep (group_lrs (optim s1)), ZeroGrad]
                else if xla w then [MarkStep] else [])
             @ [BatchEnd ((int iter_num + 1) * micro_batch_size hp) (total_lengths s')]
             @ (if int iter_num mod log_interval hp = 0 then [Print ''iter''] else [])
             @ (if \<not> acc \<and> step_count s' mod eval_interval hp = 0
                then [Validate, EvalEnd, Print ''val loss'', Barrier] else [])
             @ (if \<not> acc \<and> step_count s' mod save_interval hp = 0
                then save_adapter_v2_checkpoint w (model s')
                       (path_div out_dir (ckpt_name iter_num))
                else [])"
proof -
  from train_iter_Inr [OF assms] obtain acc where "\<exists>loss s1.
         is_accumulating hp iter_num = Inr acc
       \<and> linear_warmup hp s = Inr s1
       \<and> compute_loss w iter_num (fst (get_batch w iter_num)) (snd (get_batch w iter_num))
           = Inr loss
       \<and> step_count s' = step_count s + (if acc then 0 else 1)
       \<and> optim s' = optim s1
       \<and> model s' = (if acc then model s
                       else optimizer_step w iter_num (optim s1) (model s))
       \<and> total_lengths s' = total_lengths s + int (size1 (fst (get_batch w iter_num)))
       \<and> trace s' = trace s
           @ [GetBatch iter_num (iter_num = 0), Forward acc,
              Backward (loss / gradient_accumulation_iters hp) acc]
           @ (if \<not> acc then [OptimizerStep (group_lrs (optim s1)), ZeroGrad]
              else if xla w then [MarkStep] else [])
           @ [BatchEnd ((int iter_num + 1) * micro_batch_size hp) (total_lengths s')]
           @ (if int iter_num mod log_interval hp = 0 then [Print ''iter''] else [])
           @ (if \<not> acc \<and> step_count s' mod eval_interval hp = 0
              then [Validate, EvalEnd, Print ''val loss'', Barrier] else [])
           @ (if \<not> acc \<and> step_count s' mod save_interval hp = 0
              then save_adapter_v2_checkpoint w (model s')
                     (path_div out_dir (ckpt_name iter_num))
              else [])" ..
  then obtain loss s1 where c: "
         is_accumulating hp iter_num = Inr acc
       \<and> linear_warmup hp s = Inr s1
       \<and> compute_loss w iter_num (fst (get_batch w iter_num)) (snd (get_batch w iter_num))
           = Inr loss
       \<and> step_count s' = step_count s + (if acc then 0 else 1)
       \<and> optim s' = optim s1
       \<and> model s' = (if acc then model s
                       else optimizer_step w iter_num (optim s1) (model s))
       \<and> total_lengths s' = total_lengths s + int (size1 (fst (get_batch w iter_num)))
       \<and> trace s' = trace s
           @ [GetBatch iter_num (iter_num = 0), Forward acc,
              Backward (loss / gradient_accumulation_iters hp) acc]
           @ (if \<not> acc then [OptimizerStep (group_lrs (optim s1)), ZeroGrad]
              else if xla w then [MarkStep] else [])
           @ [BatchEnd ((int iter_num + 1) * micro_batch_size hp) (total_lengths s')]
           @ (if int iter_num mod log_interval hp = 0 then [Print ''iter''] else [])
           @ (if \<not> acc \<and> step_count s' mod eval_interval hp = 0
              then [Validate, EvalEnd, Print ''val loss'', Barrier] else [])
           @ (if \<not> acc \<and> step_count s' mod save_interval hp = 0
              then save_adapter_v2_checkpoint w (model s')
                     (path_div out_dir (ckpt_name iter_num))
              else [])" by (elim exE)
  show thesis
    using c by (intro that [of acc s1 loss]) simp_all
qed

text \<open>
  C3. In an iteration of the loop that runs to its end, \<open>optimizer.step()\<close> immediately
  followed by \<open>optimizer.zero_grad()\<close> happens exactly when
  \<open>(iter_num + 1) % gradient_accumulation_iters\<close> is zero, and nothing else touches the
  optimizer; there is exactly one backward pass, on \<open>loss / gradient_accumulation_iters\<close>,
  with gradient synchronisation suppressed exactly when the iteration accumulates; and
  \<open>step_count\<close> grows by one on a stepping iteration and stays as it is otherwise.
\<close>

theorem optimizer_step_iff_window_complete:
  assumes "train_iter hp w out_dir iter_num s = Inr s'"
  shows "\<exists>r loss evs.
           py_float_mod (rat_of_int (int iter_num + 1)) (gradient_accumulation_iters hp) = Inr r
         \<and> compute_loss w iter_num (fst (get_batch w iter_num)) (snd (get_batch w iter_num))
             = Inr loss
         \<and> trace s' = trace s @ evs
         \<and> filter is_optimizer_event evs
             = (if r = 0 then [OptimizerStep (group_lrs (optim s')), ZeroGrad] else [])
         \<and> (if r = 0
            then \<exists>pre post. evs = pre @ [OptimizerStep (group_lrs (optim s')), ZeroGrad] @ post
            else True)
         \<and> filter is_backward evs = [Backward (loss / gradient_accumulation_iters hp) (r \<noteq> 0)]
         \<and> step_count s' = step_count s + (if r = 0 then 1 else 0)"
proof -
  from assms obtain acc loss s1 where
        acc: "is_accumulating hp iter_num = Inr acc"
    and "linear_warmup hp s = Inr s1"
    and loss: "compute_loss w iter_num (fst (get_batch w iter_num)) (snd (get_batch w iter_num))
                 = Inr loss"
    and sc: "step_count s' = step_count s + (if acc then 0 else 1)"
    and op: "optim s' = optim s1"
    and "model s' = (if acc then model s
                     else optimizer_step w iter_num (optim s1) (model s))"
    and "total_lengths s' = total_lengths s + int (size1 (fst (get_batch w iter_num)))"
    and tr: "trace s' = trace s
             @ [GetBatch iter_num (iter_num = 0), Forward acc,
                Backward (loss / gradient_accumulation_iters hp) acc]
             @ (if \<not> acc then [OptimizerStep (group_lrs (optim s1)), ZeroGrad]
                else if xla w then [MarkStep] else [])
             @ [BatchEnd ((int iter_num + 1) * micro_batch_size hp) (total_lengths s')]
             @ (if int iter_num mod log_interval hp = 0 then [Print ''iter''] else [])
             @ (if \<not> acc \<and> step_count s' mod eval_interval hp = 0
                then [Validate, EvalEnd, Print ''val loss'', Barrier] else [])
             @ (if \<not> acc \<and> step_count s' mod save_interval hp = 0
                then save_adapter_v2_checkpoint w (model s')
                       (path_div out_dir (ckpt_name iter_num))
                else [])"
    by (rule train_iter_InrE)
  from is_accumulating_Inr [OF acc] obtain r where
        r: "py_float_mod (rat_of_int (int iter_num + 1)) (gradient_accumulation_iters hp) = Inr r"
    and accr: "acc = (r \<noteq> 0)"
    by blast
  let ?head = "[GetBatch iter_num (iter_num = 0), Forward acc,
                Backward (loss / gradient_accumulation_iters hp) acc]"
  let ?mid = "(if \<not> acc then [OptimizerStep (group_lrs (optim s')), ZeroGrad]
                else if xla w then [MarkStep] else [])"
  let ?tail = "[BatchEnd ((int iter_num + 1) * micro_batch_size hp) (total_lengths s')]
             @ (if int iter_num mod log_interval hp = 0 then [Print ''iter''] else [])
             @ (if \<not> acc \<and> step_count s' mod eval_interval hp = 0
                then [Validate, EvalEnd, Print ''val loss'', Barrier] else [])
             @ (if \<not> acc \<and> step_count s' mod save_interval hp = 0
                then save_adapter_v2_checkpoint w (model s')
                       (path_div out_dir (ckpt_name iter_num))
                else [])"
  let ?evs = "?head @ ?mid @ ?tail"
  have tr': "trace s' = trace s @ ?evs"
    using tr op by simp
  have opt: "filter is_optimizer_event ?evs
               = (if r = 0 then [OptimizerStep (group_lrs (optim s')), ZeroGrad] else [])"
    using accr by (simp add: save_adapter_v2_checkpoint_def fabric_save_def)
  have adj: "if r = 0
             then \<exists>pre post. ?evs = pre @ [OptimizerStep (group_lrs (optim s')), ZeroGrad] @ post
             else True"
  proof (cases "r = 0")
    case True
    then have "?evs = ?head @ [OptimizerStep (group_lrs (optim s')), ZeroGrad] @ ?tail"
      using accr by simp
    then show ?thesis using True by metis
  next
    case False
    then show ?thesis by simp
  qed
  have bwd: "filter is_backward ?evs
               = [Backward (loss / gradient_accumulation_iters hp) (r \<noteq> 0)]"
    using accr by (simp add: save_adapter_v2_checkpoint_def fabric_save_def)
  have sc': "step_count s' = step_count s + (if r = 0 then 1 else 0)"
    using sc accr by simp
  show ?thesis
    using r loss tr' opt adj bwd sc' by blast
qed

theorem optimizer_step_iff_window_complete_witness:
  "(\<exists>s' evs. train_iter source_hparams demo_world [''out''] 63
               (train_start demo_world [] (AdamW [] (3 / 1000) (2 / 100))) = Inr s'
            \<and> trace s' = [Validate] @ evs
            \<and> filter is_optimizer_event evs = [OptimizerStep (group_lrs (optim s')), ZeroGrad]
            \<and> filter is_backward evs = [Backward (1 / 2 / 64) False]
            \<and> step_count s' = 1)
   \<and> (\<exists>s' evs. train_iter source_hparams demo_world [''out''] 0
               (train_start demo_world [] (AdamW [] (3 / 1000) (2 / 100))) = Inr s'
            \<and> trace s' = [Validate] @ evs
            \<and> filter is_optimizer_event evs = []
            \<and> filter is_backward evs = [Backward (1 / 2 / 64) True]
            \<and> step_count s' = 0)"
proof -
  let ?s0 = "train_start demo_world [] (AdamW [] (3 / 1000) (2 / 100)) :: int train_state"
  have s0: "trace ?s0 = [Validate]" "step_count ?s0 = 0"
    by (simp_all add: train_start_def demo_world_def)
  have loss: "compute_loss demo_world i (fst (get_batch demo_world i))
                (snd (get_batch demo_world i)) = Inr (1 / 2)" for i
    by (simp add: compute_loss_def shift_logits_def demo_world_def)
  have gai: "gradient_accumulation_iters source_hparams = 64"
    by (simp add: source_hparams_def literals.extend_def)
  obtain a where a: "train_iter source_hparams demo_world [''out''] 63 ?s0 = Inr a"
    using demo_iter_returns(1) by blast
  obtain b where b: "train_iter source_hparams demo_world [''out''] 0 ?s0 = Inr b"
    using demo_iter_returns(2) by blast
  have "\<exists>evs. trace a = [Validate] @ evs
            \<and> filter is_optimizer_event evs = [OptimizerStep (group_lrs (optim a)), ZeroGrad]
            \<and> filter is_backward evs = [Backward (1 / 2 / 64) False]
            \<and> step_count a = 1"
    using optimizer_step_iff_window_complete [OF a] float_mod_64(1) loss [of 63] s0 gai
    by auto
  moreover have "\<exists>evs. trace b = [Validate] @ evs
            \<and> filter is_optimizer_event evs = []
            \<and> filter is_backward evs = [Backward (1 / 2 / 64) True]
            \<and> step_count b = 0"
    using optimizer_step_iff_window_complete [OF b] float_mod_64(2) loss [of 0] s0 gai
    by auto
  ultimately show ?thesis
    using a b by blast
qed

lemma name_63999: "''iter-'' @ format_06d 63999 @ ''-ckpt.pth'' = ''iter-063999-ckpt.pth''"
  by (simp add: format_06d_def digits10.simps)

lemma demo_iter_63999:
  "\<exists>s'. train_iter source_hparams demo_world [''out''] 63999
           ((train_start demo_world (prepared_model demo_world [''ckpt''])
               (AdamW [''adapter_scale''] (3 / 1000) (2 / 100)))\<lparr> step_count := 999 \<rparr>) = Inr s'
         \<and> step_count s' = 1000
         \<and> model s' = [(''wte'', \<lparr> data = 7, requires_grad = False \<rparr>),
                        (''lm_head'', \<lparr> data = 0, requires_grad = False \<rparr>),
                        (''adapter_scale'', \<lparr> data = 2, requires_grad = True \<rparr>)]"
  by (simp add: train_iter_def and_then_def linear_warmup_def forward_backward_def
      step_or_accumulate_def monitor_and_log_def maybe_validate_def maybe_save_def emit_def
      py_float_truediv_def py_float_mul_def round_double_zero py_mod_def is_accumulating_def
      py_float_mod_def source_hparams_def
      source_literals_def literals.extend_def demo_world_def train_start_def compute_loss_def
      shift_logits_def optimizer_step_def AdamW_def
      prepared_model_def mark_only_adapter_v2_as_trainable_def
      add_adapter_v2_parameters_to_linear_layers_def loaded_model_def load_state_dict_def
      GPT_def checkpoint_path_def path_div_def)

lemma demo_iter_38399:
  "\<exists>s'. train_iter source_hparams demo_world [''out''] 38399
           ((train_start demo_world (prepared_model demo_world [''ckpt''])
               (AdamW [''adapter_scale''] (3 / 1000) (2 / 100)))\<lparr> step_count := 599 \<rparr>) = Inr s'
         \<and> step_count s' = 600"
  by (simp add: train_iter_def and_then_def linear_warmup_def forward_backward_def
      step_or_accumulate_def monitor_and_log_def maybe_validate_def maybe_save_def emit_def
      py_float_truediv_def py_float_mul_def round_double_zero py_mod_def is_accumulating_def
      py_float_mod_def source_hparams_def
      source_literals_def literals.extend_def demo_world_def train_start_def compute_loss_def
      shift_logits_def optimizer_step_def AdamW_def
      prepared_model_def mark_only_adapter_v2_as_trainable_def
      add_adapter_v2_parameters_to_linear_layers_def loaded_model_def load_state_dict_def
      GPT_def checkpoint_path_def path_div_def)

lemma source_intervals:
  "eval_interval source_hparams = 600" "save_interval source_hparams = 1000"
  by (simp_all add: source_hparams_def source_literals_def literals.extend_def)

text \<open>
  C5. In an iteration that runs to its end, \<open>validate\<close> is called exactly when the
  iteration is not accumulating and \<open>step_count % eval_interval == 0\<close>, and a checkpoint is
  saved, to \<open>out_dir / f"iter-{iter_num:06d}-ckpt.pth"\<close> and holding the entries of the
  model that \<open>adapter_filter\<close> selects, exactly when the iteration is not accumulating and
  \<open>step_count % save_interval == 0\<close>; \<open>step_count\<close> is read after the increment. An
  iteration that is not accumulating has performed an optimizer step. Before the loop
  \<open>train\<close> calls \<open>validate\<close> once.
\<close>

theorem validation_and_checkpoint_schedule:
  assumes "train_iter hp w out_dir iter_num s = Inr s'"
  shows "\<exists>acc evs.
           is_accumulating hp iter_num = Inr acc
         \<and> trace s' = trace s @ evs
         \<and> filter is_validate evs
             = (if \<not> acc \<and> step_count s' mod eval_interval hp = 0 then [Validate] else [])
         \<and> filter is_save evs
             = (if \<not> acc \<and> step_count s' mod save_interval hp = 0
                then [Save (out_dir @ [''iter-'' @ format_06d iter_num @ ''-ckpt.pth''])
                        (filter (\<lambda>(k, v). adapter_filter w k v) (state_dict (model s')))]
                else [])
         \<and> filter is_step evs
             = (if acc then [] else [OptimizerStep (group_lrs (optim s'))])
         \<and> filter is_validate (trace (train_start w m opt)) = [Validate]
         \<and> train hp w out_dir m opt
             = train_loop hp w out_dir [0..<nat (max_iters hp)] (train_start w m opt)"
proof -
  from assms obtain acc loss s1 where
        acc: "is_accumulating hp iter_num = Inr acc"
    and "linear_warmup hp s = Inr s1"
    and "compute_loss w iter_num (fst (get_batch w iter_num)) (snd (get_batch w iter_num))
                 = Inr loss"
    and "step_count s' = step_count s + (if acc then 0 else 1)"
    and op: "optim s' = optim s1"
    and "model s' = (if acc then model s
                     else optimizer_step w iter_num (optim s1) (model s))"
    and "total_lengths s' = total_lengths s + int (size1 (fst (get_batch w iter_num)))"
    and tr: "trace s' = trace s
             @ [GetBatch iter_num (iter_num = 0), Forward acc,
                Backward (loss / gradient_accumulation_iters hp) acc]
             @ (if \<not> acc then [OptimizerStep (group_lrs (optim s1)), ZeroGrad]
                else if xla w then [MarkStep] else [])
             @ [BatchEnd ((int iter_num + 1) * micro_batch_size hp) (total_lengths s')]
             @ (if int iter_num mod log_interval hp = 0 then [Print ''iter''] else [])
             @ (if \<not> acc \<and> step_count s' mod eval_interval hp = 0
                then [Validate, EvalEnd, Print ''val loss'', Barrier] else [])
             @ (if \<not> acc \<and> step_count s' mod save_interval hp = 0
                then save_adapter_v2_checkpoint w (model s')
                       (path_div out_dir (ckpt_name iter_num))
                else [])"
    by (rule train_iter_InrE)
  let ?evs = "[GetBatch iter_num (iter_num = 0), Forward acc,
                Backward (loss / gradient_accumulation_iters hp) acc]
             @ (if \<not> acc then [OptimizerStep (group_lrs (optim s')), ZeroGrad]
                else if xla w then [MarkStep] else [])
             @ [BatchEnd ((int iter_num + 1) * micro_batch_size hp) (total_lengths s')]
             @ (if int iter_num mod log_interval hp = 0 then [Print ''iter''] else [])
             @ (if \<not> acc \<and> step_count s' mod eval_interval hp = 0
                then [Validate, EvalEnd, Print ''val loss'', Barrier] else [])
             @ (if \<not> acc \<and> step_count s' mod save_interval hp = 0
                then save_adapter_v2_checkpoint w (model s')
                       (path_div out_dir (ckpt_name iter_num))
                else [])"
  have tr': "trace s' = trace s @ ?evs"
    using tr op by simp
  have val: "filter is_validate ?evs
      = (if \<not> acc \<and> step_count s' mod eval_interval hp = 0 then [Validate] else [])"
    by (simp add: save_adapter_v2_checkpoint_def fabric_save_def)
  have sav: "filter is_save ?evs
      = (if \<not> acc \<and> step_count s' mod save_interval hp = 0
                then [Save (out_dir @ [''iter-'' @ format_06d iter_num @ ''-ckpt.pth''])
                        (filter (\<lambda>(k, v). adapter_filter w k v) (state_dict (model s')))]
                else [])"
    by (simp add: save_adapter_v2_checkpoint_def fabric_save_def path_div_def ckpt_name_def)
  have stp: "filter is_step ?evs = (if acc then [] else [OptimizerStep (group_lrs (optim s'))])"
    by (simp add: save_adapter_v2_checkpoint_def fabric_save_def)
  have pre: "filter is_validate (trace (train_start w m opt)) = [Validate]"
    by (simp add: train_start_def)
  have whole: "train hp w out_dir m opt
             = train_loop hp w out_dir [0..<nat (max_iters hp)] (train_start w m opt)"
    by (simp add: train_def)
  show ?thesis
    using acc tr' val sav stp pre whole by blast
qed

theorem validation_and_checkpoint_schedule_witness:
  "(\<exists>s' evs. train_iter source_hparams demo_world [''out''] 63999
               ((train_start demo_world (prepared_model demo_world [''ckpt''])
                   (AdamW [''adapter_scale''] (3 / 1000) (2 / 100)))\<lparr> step_count := 999 \<rparr>)
               = Inr s'
            \<and> trace s' = [Validate] @ evs
            \<and> filter is_validate evs = []
            \<and> filter is_save evs = [Save [''out'', ''iter-063999-ckpt.pth''] [(''adapter_scale'', 2)]])
   \<and> (\<exists>s' evs. train_iter source_hparams demo_world [''out''] 38399
               ((train_start demo_world (prepared_model demo_world [''ckpt''])
                   (AdamW [''adapter_scale''] (3 / 1000) (2 / 100)))\<lparr> step_count := 599 \<rparr>)
               = Inr s'
            \<and> trace s' = [Validate] @ evs
            \<and> filter is_validate evs = [Validate]
            \<and> filter is_save evs = [])"
proof -
  let ?m = "prepared_model demo_world [''ckpt'']"
  let ?o = "AdamW [''adapter_scale''] (3 / 1000) (2 / 100)"
  let ?s = "train_start demo_world ?m ?o"
  have tr0: "trace (?s\<lparr> step_count := n \<rparr>) = [Validate]" for n
    by (simp add: train_start_def demo_world_def)
  have acc1: "is_accumulating source_hparams 63999 = Inr False"
    and acc2: "is_accumulating source_hparams 38399 = Inr False"
    by (simp_all add: is_accumulating_def py_float_mod_def source_hparams_def literals.extend_def)
  obtain a where a: "train_iter source_hparams demo_world [''out''] 63999
                       (?s\<lparr> step_count := 999 \<rparr>) = Inr a"
    and a_sc: "step_count a = 1000"
    and a_m: "model a = [(''wte'', \<lparr> data = 7, requires_grad = False \<rparr>),
                        (''lm_head'', \<lparr> data = 0, requires_grad = False \<rparr>),
                        (''adapter_scale'', \<lparr> data = 2, requires_grad = True \<rparr>)]"
    using demo_iter_63999 by blast
  obtain b where b: "train_iter source_hparams demo_world [''out''] 38399
                       (?s\<lparr> step_count := 599 \<rparr>) = Inr b"
    and b_sc: "step_count b = 600"
    using demo_iter_38399 by blast
  have flt: "filter (\<lambda>(k, v). adapter_filter demo_world k v) (state_dict (model a))
               = [(''adapter_scale'', 2)]"
    unfolding a_m by (simp add: state_dict_def demo_world_def)
  from validation_and_checkpoint_schedule [OF a, of ?m ?o] obtain acc evs where
        "is_accumulating source_hparams 63999 = Inr acc"
    and "trace a = trace (?s\<lparr> step_count := 999 \<rparr>) @ evs"
    and "filter is_validate evs
           = (if \<not> acc \<and> step_count a mod eval_interval source_hparams = 0
              then [Validate] else [])"
    and "filter is_save evs
           = (if \<not> acc \<and> step_count a mod save_interval source_hparams = 0
              then [Save ([''out''] @ [''iter-'' @ format_06d 63999 @ ''-ckpt.pth''])
                      (filter (\<lambda>(k, v). adapter_filter demo_world k v) (state_dict (model a)))]
              else [])"
    by blast
  then have "trace a = [Validate] @ evs
            \<and> filter is_validate evs = []
            \<and> filter is_save evs
                = [Save [''out'', ''iter-063999-ckpt.pth''] [(''adapter_scale'', 2)]]"
    using acc1 a_sc flt source_intervals name_63999 tr0 [of 999] by simp
  then have first: "\<exists>evs. trace a = [Validate] @ evs
            \<and> filter is_validate evs = []
            \<and> filter is_save evs
                = [Save [''out'', ''iter-063999-ckpt.pth''] [(''adapter_scale'', 2)]]"
    by blast
  from validation_and_checkpoint_schedule [OF b, of ?m ?o] obtain acc' evs' where
        "is_accumulating source_hparams 38399 = Inr acc'"
    and "trace b = trace (?s\<lparr> step_count := 599 \<rparr>) @ evs'"
    and "filter is_validate evs'
           = (if \<not> acc' \<and> step_count b mod eval_interval source_hparams = 0
              then [Validate] else [])"
    and "filter is_save evs'
           = (if \<not> acc' \<and> step_count b mod save_interval source_hparams = 0
              then [Save ([''out''] @ [''iter-'' @ format_06d 38399 @ ''-ckpt.pth''])
                      (filter (\<lambda>(k, v). adapter_filter demo_world k v) (state_dict (model b)))]
              else [])"
    by blast
  then have "trace b = [Validate] @ evs'
            \<and> filter is_validate evs' = [Validate]
            \<and> filter is_save evs' = []"
    using acc2 b_sc source_intervals tr0 [of 599] by simp
  then have second: "\<exists>evs. trace b = [Validate] @ evs
            \<and> filter is_validate evs = [Validate]
            \<and> filter is_save evs = []"
    by blast
  show ?thesis
    using a b first second by blast
qed

section \<open>Parameter groups and small runs\<close>

lemma group_lrs_set_lr:
  "group_lrs (set_lr l opt) = replicate (length (param_groups opt)) l"
  by (simp add: group_lrs_def set_lr_def comp_def map_replicate_const)

lemma length_groups_set_lr:
  "length (param_groups (set_lr l opt)) = length (param_groups opt)"
  by (simp add: set_lr_def)

lemma group_lrs_make_optimizer: "group_lrs (make_optimizer hp m) = [learning_rate hp]"
  by (simp add: make_optimizer_def AdamW_def group_lrs_def)

lemma length_group_lrs: "length (group_lrs opt) = length (param_groups opt)"
  by (simp add: group_lrs_def)

lemma linear_warmup_groups:
  assumes "linear_warmup hp s = Inr s1"
  shows "length (param_groups (optim s1)) = length (param_groups (optim s))"
  using assms
  by (auto simp: linear_warmup_def py_float_truediv_def length_groups_set_lr split: if_splits)

lemmas run_defs =
  state_before_def train_def train_iter_def and_then_def linear_warmup_def forward_backward_def
  step_or_accumulate_def monitor_and_log_def maybe_validate_def maybe_save_def emit_def
  py_float_truediv_def py_float_mul_def round_double_zero py_mod_def is_accumulating_def
      py_float_mod_def literals.extend_def
  demo_world_def train_start_def compute_loss_def shift_logits_def optimizer_step_def
  AdamW_def make_optimizer_def trainable_params_def set_lr_def group_lrs_def
  prepared_model_def mark_only_adapter_v2_as_trainable_def
  add_adapter_v2_parameters_to_linear_layers_def loaded_model_def load_state_dict_def
  GPT_def checkpoint_path_def path_div_def save_adapter_v2_checkpoint_def fabric_save_def
  state_dict_def size1_def

lemma upt_3: "[0..<3] = [0, 1, 2]" and upt_1: "[0..<1] = [0]"
  by (simp_all add: upt_rec)

lemma small_run_3:
  "\<exists>s. state_before small_hparams demo_world [''out''] (prepared_model demo_world [''ckpt''])
          (make_optimizer small_hparams (prepared_model demo_world [''ckpt''])) 3 = Inr s
       \<and> step_count s = 3"
  by (simp add: run_defs small_hparams_def small_literals_def upt_3 ckpt_name_def
      format_06d_def digits10.simps)

section \<open>What one iteration adds to the trace\<close>

lemma list_all_filter_same: "list_all P (filter P xs)"
  by (simp add: list_all_iff)

lemma train_iter_events:
  assumes "train_iter hp w out_dir i s = Inr s'"
  obtains acc s1 evs where
        "is_accumulating hp i = Inr acc"
    and "linear_warmup hp s = Inr s1"
    and "step_count s' = step_count s + (if acc then 0 else 1)"
    and "optim s' = optim s1"
    and "trace s' = trace s @ evs"
    and "filter is_step evs = (if acc then [] else [OptimizerStep (group_lrs (optim s1))])"
    and "list_all (\<lambda>e. writes_only (adapter_filter w) e \<and> \<not> saved_to (final_path out_dir) e)
           evs"
proof -
  from assms obtain acc loss s1 where
        acc: "is_accumulating hp i = Inr acc"
    and lw: "linear_warmup hp s = Inr s1"
    and "compute_loss w i (fst (get_batch w i)) (snd (get_batch w i)) = Inr loss"
    and sc: "step_count s' = step_count s + (if acc then 0 else 1)"
    and op: "optim s' = optim s1"
    and "model s' = (if acc then model s else optimizer_step w i (optim s1) (model s))"
    and "total_lengths s' = total_lengths s + int (size1 (fst (get_batch w i)))"
    and tr: "trace s' = trace s
             @ [GetBatch i (i = 0), Forward acc,
                Backward (loss / gradient_accumulation_iters hp) acc]
             @ (if \<not> acc then [OptimizerStep (group_lrs (optim s1)), ZeroGrad]
                else if xla w then [MarkStep] else [])
             @ [BatchEnd ((int i + 1) * micro_batch_size hp) (total_lengths s')]
             @ (if int i mod log_interval hp = 0 then [Print ''iter''] else [])
             @ (if \<not> acc \<and> step_count s' mod eval_interval hp = 0
                then [Validate, EvalEnd, Print ''val loss'', Barrier] else [])
             @ (if \<not> acc \<and> step_count s' mod save_interval hp = 0
                then save_adapter_v2_checkpoint w (model s') (path_div out_dir (ckpt_name i))
                else [])"
    by (rule train_iter_InrE)
  let ?evs = "[GetBatch i (i = 0), Forward acc,
                Backward (loss / gradient_accumulation_iters hp) acc]
             @ (if \<not> acc then [OptimizerStep (group_lrs (optim s1)), ZeroGrad]
                else if xla w then [MarkStep] else [])
             @ [BatchEnd ((int i + 1) * micro_batch_size hp) (total_lengths s')]
             @ (if int i mod log_interval hp = 0 then [Print ''iter''] else [])
             @ (if \<not> acc \<and> step_count s' mod eval_interval hp = 0
                then [Validate, EvalEnd, Print ''val loss'', Barrier] else [])
             @ (if \<not> acc \<and> step_count s' mod save_interval hp = 0
                then save_adapter_v2_checkpoint w (model s') (path_div out_dir (ckpt_name i))
                else [])"
  have st: "filter is_step ?evs = (if acc then [] else [OptimizerStep (group_lrs (optim s1))])"
    by (simp add: save_adapter_v2_checkpoint_def fabric_save_def)
  have ok: "list_all (\<lambda>e. writes_only (adapter_filter w) e
                          \<and> \<not> saved_to (final_path out_dir) e) ?evs"
    by (simp add: save_adapter_v2_checkpoint_def fabric_save_def list_all_filter_same
        path_div_def final_path_def ckpt_name_def)
  show thesis
    using acc lw sc op tr st ok by (rule that)
qed

section \<open>The first optimizer step\<close>

lemma take1_append_nonempty: "xs \<noteq> [] \<Longrightarrow> take 1 (xs @ ys) = take 1 xs"
  by (cases xs) simp_all

lemma warmup_at_step_zero:
  assumes "0 < warmup_steps hp" and "step_count s = 0" and "linear_warmup hp s = Inr s1"
  shows "group_lrs (optim s1) = replicate (length (param_groups (optim s))) 0"
proof -
  have "optim s1 = set_lr (round_double (round_double
                             (learning_rate hp * rat_of_int (step_count s))
                             / warmup_steps hp))
                     (optim s)"
    using linear_warmup_Inr(2) [OF assms(3)] assms(1) assms(2) by simp
  then show ?thesis
    using assms(2) by (simp add: group_lrs_set_lr round_double_zero)
qed

text \<open>
  The invariant of the loop: \<open>step_count\<close> counts the optimizer steps performed so far, and
  the first of them, if there is one, ran with every learning rate at zero.
\<close>

lemma first_step_invariant_Inr:
  assumes ws: "0 < warmup_steps hp"
    and inv: "length (param_groups (optim s)) = n"
      "step_count s = int (length (filter is_step (trace s)))"
      "take 1 (filter is_step (trace s)) = []
       \<or> take 1 (filter is_step (trace s)) = [OptimizerStep (replicate n 0)]"
    and iter: "train_iter hp w out_dir i s = Inr s'"
  shows "length (param_groups (optim s')) = n
       \<and> step_count s' = int (length (filter is_step (trace s')))
       \<and> (take 1 (filter is_step (trace s')) = []
          \<or> take 1 (filter is_step (trace s')) = [OptimizerStep (replicate n 0)])"
proof -
  from iter obtain acc s1 evs where
        "is_accumulating hp i = Inr acc"
    and lw: "linear_warmup hp s = Inr s1"
    and sc: "step_count s' = step_count s + (if acc then 0 else 1)"
    and op: "optim s' = optim s1"
    and tr: "trace s' = trace s @ evs"
    and st: "filter is_step evs = (if acc then [] else [OptimizerStep (group_lrs (optim s1))])"
    by (rule train_iter_events)
  have len: "length (param_groups (optim s')) = n"
    using linear_warmup_groups [OF lw] inv(1) op by simp
  have cnt: "step_count s' = int (length (filter is_step (trace s')))"
    using sc tr st inv(2) by simp
  have first: "take 1 (filter is_step (trace s')) = []
          \<or> take 1 (filter is_step (trace s')) = [OptimizerStep (replicate n 0)]"
  proof (cases "filter is_step (trace s) = []")
    case True
    then have "step_count s = 0" using inv(2) by simp
    then have "group_lrs (optim s1) = replicate n 0"
      using warmup_at_step_zero [OF ws _ lw] inv(1) by simp
    then show ?thesis
      using True tr st by simp
  next
    case False
    have "filter is_step (trace s') = filter is_step (trace s) @ filter is_step evs"
      using tr by simp
    then have "take 1 (filter is_step (trace s')) = take 1 (filter is_step (trace s))"
      using take1_append_nonempty [OF False] by simp
    then show ?thesis using inv(3) by simp
  qed
  show ?thesis using len cnt first by blast
qed


lemma first_step_invariant_Inl:
  assumes ws: "0 < warmup_steps hp"
    and inv: "length (param_groups (optim s)) = n"
      "step_count s = int (length (filter is_step (trace s)))"
      "take 1 (filter is_step (trace s)) = []
       \<or> take 1 (filter is_step (trace s)) = [OptimizerStep (replicate n 0)]"
    and iter: "train_iter hp w out_dir i s = Inl (e, s'')"
  shows "take 1 (filter is_step (trace s'')) = []
       \<or> take 1 (filter is_step (trace s'')) = [OptimizerStep (replicate n 0)]"
proof -
  from train_iter_Inl [OF iter] obtain evs where
        tr: "trace s'' = trace s @ evs"
    and st: "filter is_step evs = []
             \<or> (\<exists>s1. linear_warmup hp s = Inr s1
                    \<and> filter is_step evs = [OptimizerStep (group_lrs (optim s1))])"
    by blast
  have app: "filter is_step (trace s'') = filter is_step (trace s) @ filter is_step evs"
    using tr by simp
  show ?thesis
  proof (cases "filter is_step (trace s) = []")
    case True
    then have zero: "step_count s = 0" using inv(2) by simp
    from st show ?thesis
    proof
      assume "filter is_step evs = []"
      then show ?thesis using app True by simp
    next
      assume "\<exists>s1. linear_warmup hp s = Inr s1
                \<and> filter is_step evs = [OptimizerStep (group_lrs (optim s1))]"
      then obtain s1 where lw: "linear_warmup hp s = Inr s1"
        and one: "filter is_step evs = [OptimizerStep (group_lrs (optim s1))]"
        by blast
      have "group_lrs (optim s1) = replicate n 0"
        using warmup_at_step_zero [OF ws zero lw] inv(1) by simp
      then show ?thesis using app True one by simp
    qed
  next
    case False
    have "take 1 (filter is_step (trace s'')) = take 1 (filter is_step (trace s))"
      using take1_append_nonempty [OF False] app by simp
    then show ?thesis using inv(3) by simp
  qed
qed

lemma accumulating_before_window:
  assumes "0 < gradient_accumulation_iters hp"
    and "rat_of_int (int i + 1) < gradient_accumulation_iters hp"
  shows "is_accumulating hp i = Inr True"
proof -
  let ?x = "rat_of_int (int i + 1) / gradient_accumulation_iters hp"
  have "0 \<le> ?x" and "?x < 1"
    using assms by simp_all
  then have "\<lfloor>?x\<rfloor> = 0"
    by (simp add: floor_eq_iff)
  then show ?thesis
    using assms(1) by (simp add: is_accumulating_def py_float_mod_def)
qed

lemma no_step_before_window:
  assumes "0 < gradient_accumulation_iters hp"
    and "state_before hp w out_dir m opt n = Inr s"
    and "rat_of_int (int n) < gradient_accumulation_iters hp"
  shows "step_count s = 0"
  using assms(2) assms(3)
proof (induction n arbitrary: s)
  case 0
  then show ?case by (auto simp: state_before_0 train_start_def)
next
  case (Suc n)
  from Suc.prems(1) obtain s1 where before: "state_before hp w out_dir m opt n = Inr s1"
    and iter: "train_iter hp w out_dir n s1 = Inr s"
    by (auto simp: state_before_Suc and_then_Inr)
  have small: "rat_of_int (int n + 1) < gradient_accumulation_iters hp"
    using Suc.prems(2) by (simp add: add.commute)
  then have "rat_of_int (int n) < gradient_accumulation_iters hp"
    by simp
  then have zero: "step_count s1 = 0"
    using Suc.IH before by blast
  from iter obtain acc s2 evs where
        "is_accumulating hp n = Inr acc"
    and "linear_warmup hp s1 = Inr s2"
    and "step_count s = step_count s1 + (if acc then 0 else 1)"
    by (rule train_iter_events)
  then show ?case
    using accumulating_before_window [OF assms(1) small] zero by simp
qed

lemma step_count_counts_steps:
  assumes "state_before hp w out_dir m opt n = Inr s"
  shows "step_count s = int (length (filter is_step (trace s)))"
proof (rule state_before_invariant [OF assms])
  show "step_count (train_start w m opt)
          = int (length (filter is_step (trace (train_start w m opt))))"
    by (simp add: train_start_def)
next
  fix i s s'
  assume inv: "step_count s = int (length (filter is_step (trace s)))"
    and iter: "train_iter hp w out_dir i s = Inr s'"
  from iter obtain acc s1 evs where
        "is_accumulating hp i = Inr acc"
    and "linear_warmup hp s = Inr s1"
    and "step_count s' = step_count s + (if acc then 0 else 1)"
    and "optim s' = optim s1"
    and "trace s' = trace s @ evs"
    and "filter is_step evs = (if acc then [] else [OptimizerStep (group_lrs (optim s1))])"
    by (rule train_iter_events)
  then show "step_count s' = int (length (filter is_step (trace s')))"
    using inv by simp
qed

text \<open>
  C9. When \<open>warmup_steps > 0\<close> and \<open>gradient_accumulation_iters > 0\<close>, the first
  \<open>optimizer.step()\<close> of a run, if the run gets that far and however it ends, is performed
  with learning rate \<open>0\<close> in every parameter group. The reason is the order of the loop
  body: \<open>step_count\<close> is the number of steps already performed, it is still \<open>0\<close> at the
  start of each of the first \<open>gradient_accumulation_iters\<close> iterations, where the warmup
  assigns \<open>learning_rate * 0 / warmup_steps\<close>, and it is incremented only after the step.
\<close>

theorem first_optimizer_step_has_zero_lr:
  assumes "0 < warmup_steps hp" and "0 < gradient_accumulation_iters hp"
  shows "(take 1 (filter is_step (trace (result_state (train hp w out_dir m opt)))) = []
          \<or> take 1 (filter is_step (trace (result_state (train hp w out_dir m opt))))
              = [OptimizerStep (replicate (length (param_groups opt)) 0)])
       \<and> (\<forall>n s. state_before hp w out_dir m opt n = Inr s \<longrightarrow>
             step_count s = int (length (filter is_step (trace s)))
           \<and> (rat_of_int (int n) < gradient_accumulation_iters hp \<longrightarrow> step_count s = 0))"
proof (intro conjI allI impI)
  let ?n = "length (param_groups opt)"
  let ?P = "\<lambda>s. length (param_groups (optim s)) = ?n
       \<and> step_count s = int (length (filter is_step (trace s)))
       \<and> (take 1 (filter is_step (trace s)) = []
          \<or> take 1 (filter is_step (trace s)) = [OptimizerStep (replicate ?n 0)])"
  let ?Q = "\<lambda>s. take 1 (filter is_step (trace s)) = []
          \<or> take 1 (filter is_step (trace s)) = [OptimizerStep (replicate ?n 0)]"
  have "?Q (result_state (train_loop hp w out_dir [0..<nat (max_iters hp)]
              (train_start w m opt)))"
  proof (rule train_loop_result [where P = ?P and Q = ?Q])
    show "?P (train_start w m opt)"
      by (simp add: train_start_def)
  next
    fix i s s'
    assume "?P s" and "train_iter hp w out_dir i s = Inr s'"
    then show "?P s'"
      using first_step_invariant_Inr [OF assms(1), of s ?n w out_dir i s'] by blast
  next
    fix i s e s'
    assume "?P s" and "train_iter hp w out_dir i s = Inl (e, s')"
    then show "?Q s'"
      using first_step_invariant_Inl [OF assms(1), of s ?n w out_dir i e s'] by blast
  next
    fix s
    assume "?P s"
    then show "?Q s" by blast
  qed
  then show "take 1 (filter is_step (trace (result_state (train hp w out_dir m opt)))) = []
          \<or> take 1 (filter is_step (trace (result_state (train hp w out_dir m opt))))
              = [OptimizerStep (replicate (length (param_groups opt)) 0)]"
    by (simp add: train_def)
next
  fix n s
  assume "state_before hp w out_dir m opt n = Inr s"
  then show "step_count s = int (length (filter is_step (trace s)))"
    by (rule step_count_counts_steps)
next
  fix n s
  assume "state_before hp w out_dir m opt n = Inr s"
    and "rat_of_int (int n) < gradient_accumulation_iters hp"
  then show "step_count s = 0"
    using no_step_before_window [OF assms(2)] by blast
qed

lemma small_train_steps:
  "take 1 (filter is_step (trace (result_state
     (train small_hparams demo_world [''out''] (prepared_model demo_world [''ckpt''])
        (make_optimizer small_hparams (prepared_model demo_world [''ckpt'']))))))
   = [OptimizerStep [0]]"
proof -
  have n: "nat (max_iters small_hparams) = 3"
    by (simp add: small_hparams_def literals.extend_def)
  show ?thesis
    unfolding train_def n upt_3
    by (simp add: run_defs result_state_def small_hparams_def small_literals_def
        ckpt_name_def format_06d_def digits10.simps)
qed

theorem first_optimizer_step_has_zero_lr_witness:
  "0 < warmup_steps small_hparams \<and> 0 < gradient_accumulation_iters small_hparams
   \<and> take 1 (filter is_step (trace (result_state
        (train small_hparams demo_world [''out''] (prepared_model demo_world [''ckpt''])
           (make_optimizer small_hparams (prepared_model demo_world [''ckpt'']))))))
       = [OptimizerStep [0]]
   \<and> (\<exists>s. state_before small_hparams demo_world [''out''] (prepared_model demo_world [''ckpt''])
              (make_optimizer small_hparams (prepared_model demo_world [''ckpt''])) 3 = Inr s
          \<and> step_count s = 3
          \<and> int (length (filter is_step (trace s))) = 3)"
proof -
  let ?m = "prepared_model demo_world [''ckpt'']"
  have h1: "0 < warmup_steps small_hparams" and h2: "0 < gradient_accumulation_iters small_hparams"
    by (simp_all add: small_hparams_def literals.extend_def)
  note t = first_optimizer_step_has_zero_lr [OF h1 h2, of demo_world "[''out'']" ?m
             "make_optimizer small_hparams ?m"]
  have first: "take 1 (filter is_step (trace (result_state
        (train small_hparams demo_world [''out''] ?m (make_optimizer small_hparams ?m)))))
       = [OptimizerStep [0]]"
    using t small_train_steps by simp
  obtain b where b: "state_before small_hparams demo_world [''out''] ?m
                       (make_optimizer small_hparams ?m) 3 = Inr b"
    and b_sc: "step_count b = 3"
    using small_run_3 by blast
  have "step_count b = int (length (filter is_step (trace b)))"
    using t b by blast
  then show ?thesis
    using h1 h2 first b b_sc by auto
qed

section \<open>Checkpoints written by a run\<close>

lemma no_save_harmless:
  "filter is_save evs = [] \<Longrightarrow>
     list_all (\<lambda>e. writes_only flt e \<and> \<not> saved_to p e) evs"
proof (induction evs)
  case Nil
  then show ?case by simp
next
  case (Cons e evs)
  then show ?case by (cases e) (simp_all split: if_splits)
qed

lemma not_saved_to_filter:
  "list_all (\<lambda>e. writes_only flt e \<and> \<not> saved_to p e) evs \<Longrightarrow> filter (saved_to p) evs = []"
  by (induction evs) simp_all

lemma harmless_writes_only:
  "list_all (\<lambda>e. writes_only flt e \<and> \<not> saved_to p e) evs \<Longrightarrow> list_all (writes_only flt) evs"
  by (induction evs) simp_all

lemma prologue_harmless:
  "list_all (\<lambda>e. writes_only flt e \<and> \<not> saved_to p e) (main_prologue hp w dd cd od)"
  by (simp add: main_prologue_def)

lemma train_harmless:
  fixes w :: "('lg, 'v) world"
  shows "list_all (\<lambda>e. writes_only (adapter_filter w) e \<and> \<not> saved_to (final_path out_dir) e)
     (trace (result_state (train hp w out_dir m opt)))"
proof -
  let ?ok = "\<lambda>e. writes_only (adapter_filter w) e \<and> \<not> saved_to (final_path out_dir) e"
  let ?P = "\<lambda>s :: 'v train_state. list_all ?ok (trace s)"
  have "?P (result_state (train_loop hp w out_dir [0..<nat (max_iters hp)]
              (train_start w m opt)))"
  proof (rule train_loop_result [where P = ?P and Q = ?P])
    show "?P (train_start w m opt)"
      by (simp add: train_start_def)
  next
    fix i s s'
    assume inv: "?P s" and iter: "train_iter hp w out_dir i s = Inr s'"
    from iter obtain acc s1 evs where
          "is_accumulating hp i = Inr acc"
      and "linear_warmup hp s = Inr s1"
      and "step_count s' = step_count s + (if acc then 0 else 1)"
      and "optim s' = optim s1"
      and "trace s' = trace s @ evs"
      and "filter is_step evs = (if acc then [] else [OptimizerStep (group_lrs (optim s1))])"
      and "list_all ?ok evs"
      by (rule train_iter_events)
    then show "?P s'" using inv by simp
  next
    fix i s e s'
    assume inv: "?P s" and iter: "train_iter hp w out_dir i s = Inl (e, s')"
    from train_iter_Inl [OF iter] obtain evs where
          "trace s' = trace s @ evs" and "filter is_save evs = []"
      by blast
    then show "?P s'"
      using inv no_save_harmless [of evs "adapter_filter w" "final_path out_dir"] by simp
  next
    fix s :: "'v train_state"
    assume "?P s"
    then show "?P s" .
  qed
  then show ?thesis by (simp add: train_def)
qed

lemma main_cases:
  "(\<exists>e s. train hp w od (prepared_model w cd) (make_optimizer hp (prepared_model w cd))
             = Inl (e, s)
         \<and> main hp w dd cd od
             = Inl (e, s\<lparr> trace := main_prologue hp w dd cd od @ trace s \<rparr>))
   \<or> (\<exists>s. train hp w od (prepared_model w cd) (make_optimizer hp (prepared_model w cd)) = Inr s
         \<and> main hp w dd cd od
             = Inr (emit (Print ''Training time''
                          # save_adapter_v2_checkpoint w (model s) (final_path od))
                     (s\<lparr> trace := main_prologue hp w dd cd od @ trace s \<rparr>)))"
proof (cases "train hp w od (prepared_model w cd) (make_optimizer hp (prepared_model w cd))")
  case (Inl x)
  then show ?thesis
    by (cases x) (simp add: main_def Let_def and_then_def after_prologue_def)
next
  case (Inr s)
  then show ?thesis
    by (simp add: main_def Let_def and_then_def after_prologue_def emit_def)
qed

text \<open>
  C1. Every checkpoint written during \<open>main\<close>, periodic or final and whether or not the
  run ends by a raise, holds only entries that \<open>adapter_filter\<close> selects, so no parameter
  the filter rejects is ever written. When \<open>main\<close> returns, exactly one checkpoint has been
  written to \<open>out_dir / "lit_model_adapter_finetuned.pth"\<close>; it is the last effect of the
  run and holds the \<open>adapter_filter\<close> entries of the trained model. When \<open>main\<close> ends by a
  raise, no checkpoint has been written to that path.
\<close>

theorem checkpoints_hold_adapter_parameters_only:
  "list_all (writes_only (adapter_filter w)) (trace (result_state (main hp w dd cd od)))
   \<and> (\<forall>s. main hp w dd cd od = Inr s \<longrightarrow>
         filter (saved_to (od @ [''lit_model_adapter_finetuned.pth''])) (trace s)
           = [Save (od @ [''lit_model_adapter_finetuned.pth''])
                (filter (\<lambda>(k, v). adapter_filter w k v) (state_dict (model s)))]
       \<and> last (trace s)
           = Save (od @ [''lit_model_adapter_finetuned.pth''])
               (filter (\<lambda>(k, v). adapter_filter w k v) (state_dict (model s))))
   \<and> (\<forall>e s. main hp w dd cd od = Inl (e, s) \<longrightarrow>
         filter (saved_to (od @ [''lit_model_adapter_finetuned.pth''])) (trace s) = [])"
proof -
  let ?m = "prepared_model w cd"
  let ?t = "train hp w od ?m (make_optimizer hp ?m)"
  let ?ok = "\<lambda>e. writes_only (adapter_filter w) e \<and> \<not> saved_to (final_path od) e"
  let ?pro = "main_prologue hp w dd cd od"
  have fp: "final_path od = od @ [''lit_model_adapter_finetuned.pth'']"
    by (simp add: final_path_def path_div_def)
  have tr_ok: "list_all ?ok (trace (result_state ?t))"
    by (rule train_harmless)
  have pro_ok: "list_all ?ok ?pro"
    by (rule prologue_harmless)
  from main_cases [of hp w od cd dd] show ?thesis
  proof (elim disjE exE conjE)
    fix e s
    assume t: "?t = Inl (e, s)"
      and mn: "main hp w dd cd od = Inl (e, s\<lparr> trace := ?pro @ trace s \<rparr>)"
    have "list_all ?ok (trace s)"
      using tr_ok t by (simp add: result_state_def)
    then have all: "list_all ?ok (?pro @ trace s)"
      using pro_ok by simp
    show ?thesis
      using mn harmless_writes_only [OF all] not_saved_to_filter [OF all] fp
      by (simp add: result_state_def)
  next
    fix s
    assume t: "?t = Inr s"
      and mn: "main hp w dd cd od
                 = Inr (emit (Print ''Training time''
                              # save_adapter_v2_checkpoint w (model s) (final_path od))
                         (s\<lparr> trace := ?pro @ trace s \<rparr>))"
    have "list_all ?ok (trace s)"
      using tr_ok t by (simp add: result_state_def)
    then have all: "list_all ?ok (?pro @ trace s)"
      using pro_ok by simp
    show ?thesis
      using mn harmless_writes_only [OF all] not_saved_to_filter [OF all] fp
      by (simp add: result_state_def emit_def save_adapter_v2_checkpoint_def fabric_save_def
          list_all_filter_same)
  qed
qed

lemma demo_prepared:
  "prepared_model demo_world [''ckpt'']
     = [(''wte'', \<lparr> data = 7, requires_grad = False \<rparr>),
        (''lm_head'', \<lparr> data = 0, requires_grad = False \<rparr>),
        (''adapter_scale'', \<lparr> data = 1, requires_grad = True \<rparr>)]"
  by (simp add: prepared_model_def mark_only_adapter_v2_as_trainable_def
      add_adapter_v2_parameters_to_linear_layers_def loaded_model_def load_state_dict_def
      GPT_def demo_world_def checkpoint_path_def path_div_def)

lemma demo_optimizer:
  "make_optimizer small_hparams (prepared_model demo_world [''ckpt''])
     = AdamW [''adapter_scale''] (round_double (3 / 1000)) (round_double (2 / 100))"
  unfolding demo_prepared
  by (simp add: make_optimizer_def trainable_params_def small_hparams_def small_literals_def
      literals.extend_def)

lemma ckpt_name_2: "ckpt_name 2 = ''iter-000002-ckpt.pth''"
  by (simp add: ckpt_name_def format_06d_def digits10.simps eval_nat_numeral)

lemma small_main:
  "\<exists>s. main small_hparams demo_world [''data''] [''ckpt''] [''out''] = Inr s
       \<and> filter is_save (trace s)
           = [Save [''out'', ''iter-000002-ckpt.pth''] [(''adapter_scale'', 4)],
              Save [''out'', ''lit_model_adapter_finetuned.pth''] [(''adapter_scale'', 4)]]"
proof -
  have n: "nat (max_iters small_hparams) = 3"
    by (simp add: small_hparams_def literals.extend_def)
  show ?thesis
    unfolding main_def Let_def main_prologue_def demo_prepared demo_optimizer [unfolded demo_prepared]
      train_def n upt_3
    by (simp add: train_iter_def and_then_def linear_warmup_def forward_backward_def
        step_or_accumulate_def monitor_and_log_def maybe_validate_def maybe_save_def emit_def
        py_float_truediv_def py_float_mul_def round_double_zero py_mod_def is_accumulating_def
      py_float_mod_def literals.extend_def
        demo_world_def train_start_def compute_loss_def shift_logits_def optimizer_step_def
        AdamW_def set_lr_def group_lrs_def path_div_def save_adapter_v2_checkpoint_def
        fabric_save_def state_dict_def size1_def small_hparams_def small_literals_def
        ckpt_name_2 after_prologue_def final_path_def)
qed

theorem checkpoints_hold_adapter_parameters_only_witness:
  "\<exists>s. main small_hparams demo_world [''data''] [''ckpt''] [''out''] = Inr s
       \<and> filter is_save (trace s)
           = [Save [''out'', ''iter-000002-ckpt.pth''] [(''adapter_scale'', 4)],
              Save [''out'', ''lit_model_adapter_finetuned.pth''] [(''adapter_scale'', 4)]]
       \<and> filter (saved_to [''out'', ''lit_model_adapter_finetuned.pth'']) (trace s)
           = [Save [''out'', ''lit_model_adapter_finetuned.pth'']
                (filter (\<lambda>(k, v). adapter_filter demo_world k v) (state_dict (model s)))]
       \<and> list_all (writes_only (adapter_filter demo_world)) (trace s)"
proof -
  obtain s where s: "main small_hparams demo_world [''data''] [''ckpt''] [''out''] = Inr s"
    and sv: "filter is_save (trace s)
           = [Save [''out'', ''iter-000002-ckpt.pth''] [(''adapter_scale'', 4)],
              Save [''out'', ''lit_model_adapter_finetuned.pth''] [(''adapter_scale'', 4)]]"
    using small_main by blast
  note t = checkpoints_hold_adapter_parameters_only
             [of demo_world small_hparams "[''data'']" "[''ckpt'']" "[''out'']"]
  have a: "list_all (writes_only (adapter_filter demo_world)) (trace s)"
    using t s by (simp add: result_state_def)
  have b: "filter (saved_to [''out'', ''lit_model_adapter_finetuned.pth'']) (trace s)
           = [Save [''out'', ''lit_model_adapter_finetuned.pth'']
                (filter (\<lambda>(k, v). adapter_filter demo_world k v) (state_dict (model s)))]"
    using t s by simp
  show ?thesis
    using s sv a b by blast
qed

section \<open>A run with the constants of the file\<close>












section \<open>Learning-rate warmup over the run\<close>





end
